theory Spec2Isabelle
  imports Complex_Main "HOL-Library.Word" "HOL-Library.AList" "HOL-Library.Multiset"
begin

section \<open>Numeric types of the lattice core\<close>

text \<open>
  \<^verbatim>\<open>Cartesian\<close> is Eigen's \<^verbatim>\<open>Vector3f\<close>, \<^verbatim>\<open>Index3D\<close> is Eigen's \<^verbatim>\<open>Vector3i\<close> and the
  energies are \<^verbatim>\<open>MatrixXcd\<close>.  A floating-point number is modelled by the real number it
  is: the rounding of arithmetic, infinities and NaN are outside the model.  The three \<^verbatim>\<open>int\<close> components of an index are 32-bit words, so that negation
  wraps as the machine does.  A dynamic matrix is the list of its rows (so a matrix
  without rows has no columns); a dynamic vector is a list.  Equality of two dynamic
  matrices is equality of their sizes and of all their coefficients.
\<close>

type_synonym Cartesian = "real \<times> real \<times> real"
type_synonym Index3D = "32 word \<times> 32 word \<times> 32 word"
type_synonym MatrixXcd = "complex list list"

definition Cartesian_Zero :: Cartesian where
  "Cartesian_Zero = (0, 0, 0)"

definition Index3D_Zero :: Index3D where
  "Index3D_Zero = (0, 0, 0)"

fun neg_index :: "Index3D \<Rightarrow> Index3D" where
  "neg_index (x, y, z) = (- x, - y, - z)"

fun coefficients :: "Cartesian \<Rightarrow> real list" where
  "coefficients (x, y, z) = [x, y, z]"

text \<open>\<^verbatim>\<open>v.head(n)\<close>: the first \<open>n\<close> coefficients of a 3-vector.\<close>

definition head :: "nat \<Rightarrow> Cartesian \<Rightarrow> real list" where
  "head n v = take n (coefficients v)"

definition rows :: "MatrixXcd \<Rightarrow> nat" where
  "rows m = length m"

definition cols :: "MatrixXcd \<Rightarrow> nat" where
  "cols m = (case m of [] \<Rightarrow> 0 | r # _ \<Rightarrow> length r)"

definition coeff :: "MatrixXcd \<Rightarrow> nat \<Rightarrow> nat \<Rightarrow> complex" where
  "coeff m i j = m ! i ! j"

definition diagonal :: "MatrixXcd \<Rightarrow> complex list" where
  "diagonal m = map (\<lambda>i. coeff m i i) [0..<min (rows m) (cols m)]"

definition adjoint :: "MatrixXcd \<Rightarrow> MatrixXcd" where
  "adjoint m = map (map cnj) (transpose m)"

text \<open>\<^verbatim>\<open>MatrixXcd::Constant(1, 1, e)\<close>.\<close>

definition Constant_1x1 :: "complex \<Rightarrow> MatrixXcd" where
  "Constant_1x1 e = [[e]]"

text \<open>\<^verbatim>\<open>MatrixXcd::Zero(size, size)\<close> with the diagonal overwritten by a real vector.\<close>

definition diagonal_matrix :: "real list \<Rightarrow> MatrixXcd" where
  "diagonal_matrix v =
     map (\<lambda>i. map (\<lambda>j. if i = j then complex_of_real (v ! i) else 0) [0..<length v])
       [0..<length v]"

subsection \<open>Eigen's approximate predicates\<close>

text \<open>
  \<^verbatim>\<open>isZero()\<close> and \<^verbatim>\<open>isUpperTriangular()\<close> are Eigen library routines, called without an
  argument, so with the precision \<^verbatim>\<open>NumTraits<Scalar>::dummy_precision()\<close>: \<open>1e-5\<close> for
  \<^verbatim>\<open>float\<close>, \<open>1e-12\<close> for \<^verbatim>\<open>double\<close>.  \<^verbatim>\<open>isZero(prec)\<close> holds when every coefficient \<open>x\<close>
  satisfies \<^verbatim>\<open>isMuchSmallerThan(x, 1, prec)\<close>, that is \<open>\<bar>x\<bar> \<le> \<bar>1\<bar> * prec\<close>.
  \<^verbatim>\<open>isUpperTriangular(prec)\<close> takes the largest modulus on and above the diagonal
  (starting from \<open>-1\<close>), multiplies it by \<open>prec\<close> and holds when no coefficient below the
  diagonal has a modulus above that threshold.  The two precisions are written with their
  decimal values: the single- and the double-precision number nearest to them lie just
  below them with no number of the format in between, so on numbers of the format the
  comparison with the one is the comparison with the other.
\<close>

definition dummy_precision_float :: real where
  "dummy_precision_float = 1 / 100000"

definition dummy_precision_double :: real where
  "dummy_precision_double = 1 / 1000000000000"

definition isMuchSmallerThan :: "real \<Rightarrow> real \<Rightarrow> real \<Rightarrow> bool" where
  "isMuchSmallerThan x y prec \<longleftrightarrow> \<bar>x\<bar> \<le> \<bar>y\<bar> * prec"

definition isZero_float :: "Cartesian \<Rightarrow> bool" where
  "isZero_float v = list_all (\<lambda>x. isMuchSmallerThan x 1 dummy_precision_float) (coefficients v)"

definition isZero_double :: "real list \<Rightarrow> bool" where
  "isZero_double v = list_all (\<lambda>x. isMuchSmallerThan x 1 dummy_precision_double) v"

definition upper_part :: "MatrixXcd \<Rightarrow> real list" where
  "upper_part m =
     concat (map (\<lambda>j. map (\<lambda>i. cmod (coeff m i j)) [0..<min (Suc j) (rows m)]) [0..<cols m])"

definition maxAbsOnUpperPart :: "MatrixXcd \<Rightarrow> real" where
  "maxAbsOnUpperPart m = fold (\<lambda>absValue acc. if absValue > acc then absValue else acc)
     (upper_part m) (- 1)"

definition isUpperTriangular :: "MatrixXcd \<Rightarrow> bool" where
  "isUpperTriangular m =
     (let threshold = maxAbsOnUpperPart m * dummy_precision_double
      in list_all (\<lambda>j. list_all (\<lambda>i. \<not> cmod (coeff m i j) > threshold) [Suc j..<rows m])
           [0..<cols m])"

section \<open>The data model\<close>

record Sublattice =
  sub_position :: Cartesian
  sub_energy :: MatrixXcd
  sub_unique_id :: nat
  sub_alias_id :: nat

record HoppingTerm =
  term_relative_index :: Index3D
  term_from :: nat
  term_to :: nat

record HoppingFamily =
  fam_energy :: MatrixXcd
  fam_unique_id :: nat
  fam_terms :: "HoppingTerm list"

text \<open>
  The two registries are name-keyed containers.  They are modelled as association lists
  with distinct keys in which a new key goes to the end, so the list order is the
  registration order; the traversal order of the container is the list order.
\<close>

record Lattice =
  vectors :: "Cartesian list"
  sublattices :: "(string \<times> Sublattice) list"
  hoppings :: "(string \<times> HoppingFamily) list"
  offset :: Cartesian
  min_neighbors :: int

record Hopping =
  hop_relative_index :: Index3D
  hop_to :: nat
  hop_id :: nat
  hop_is_conjugate :: bool

record Site =
  site_position :: Cartesian
  site_alias :: nat
  site_hoppings :: "Hopping list"

type_synonym OptimizedLatticeStructure = "Site list"

text \<open>
  What the translation unit takes from declarations that are not part of it: the largest
  value of the identifier types \<^verbatim>\<open>sub_id\<close> and \<^verbatim>\<open>hop_id\<close>
  (\<^verbatim>\<open>std::numeric_limits<...>::max()\<close>), and the linear solver
  \<^verbatim>\<open>colPivHouseholderQr().solve()\<close>, which receives the columns of the matrix and the
  right-hand side.  They are parameters of the model.

  One more parameter stands for what the language leaves open.  The duplicate scan of
  \<^verbatim>\<open>add_hopping\<close> builds \<^verbatim>\<open>existing_conjugate\<close> with \<^verbatim>\<open>std::tie(-h.relative_index, ...)\<close>:
  the tuple holds a reference to the temporary \<^verbatim>\<open>-h.relative_index\<close>, which is destroyed at
  the end of that declaration, and the next statement compares \<^verbatim>\<open>relative_index\<close> with it.
  The outcome of that comparison is not defined; \<open>dangling_equal\<close> gives it, from
  \<^verbatim>\<open>relative_index\<close> and \<^verbatim>\<open>h.relative_index\<close>.
\<close>

record env =
  sub_id_max :: nat
  hop_id_max :: nat
  qr_solve :: "real list list \<Rightarrow> real list \<Rightarrow> real list"
  dangling_equal :: "Index3D \<Rightarrow> Index3D \<Rightarrow> bool"

datatype error =
    OnsiteNotSquare
  | OnsiteDiagonalNotReal
  | OnsiteNotUpperTriangularOrHermitian
  | SublatticeNameBlank
  | SublatticeCapacity
  | SublatticeExists string
  | HoppingNameBlank
  | HoppingCapacity
  | HoppingExists string
  | HoppingZeroIndexSameSublattice
  | HoppingSizeMismatch
  | HoppingDuplicate
  | NoSublatticeNamed string
  | NoHoppingNamed string
  | OffsetTooLarge

text \<open>
  A call either returns a value or throws.  A member function that may assign to the
  lattice returns the lattice as it is when the call ends, also when it ends by a throw.
\<close>

datatype 'a outcome = Returned 'a | Thrown error

fun is_thrown :: "'a outcome \<Rightarrow> bool" where
  "is_thrown (Thrown _) = True"
| "is_thrown (Returned _) = False"

section \<open>Construction\<close>

text \<open>
  The constructor fills \<^verbatim>\<open>vectors\<close>.  The registries start empty; the offset and the
  neighbor hint start from their default member initialisers, the zero vector and 1, which
  no property below depends on.
\<close>

definition Lattice_ctor :: "Cartesian \<Rightarrow> Cartesian \<Rightarrow> Cartesian \<Rightarrow> Lattice" where
  "Lattice_ctor a1 a2 a3 =
     \<lparr> vectors = [a1] @ (if \<not> isZero_float a2 then [a2] else [])
                     @ (if \<not> isZero_float a3 then [a3] else []),
       sublattices = [], hoppings = [], offset = Cartesian_Zero, min_neighbors = 1 \<rparr>"

definition ndim :: "Lattice \<Rightarrow> nat" where
  "ndim l = length (vectors l)"

definition nsub :: "Lattice \<Rightarrow> nat" where
  "nsub l = length (sublattices l)"

section \<open>Lookups\<close>

definition sublattice :: "Lattice \<Rightarrow> string \<Rightarrow> Sublattice outcome" where
  "sublattice l name =
     (case map_of (sublattices l) name of
        None \<Rightarrow> Thrown (NoSublatticeNamed name)
      | Some s \<Rightarrow> Returned s)"

definition hopping_family :: "Lattice \<Rightarrow> string \<Rightarrow> HoppingFamily outcome" where
  "hopping_family l name =
     (case map_of (hoppings l) name of
        None \<Rightarrow> Thrown (NoHoppingNamed name)
      | Some f \<Rightarrow> Returned f)"

section \<open>The sublattice registry\<close>

text \<open>
  \<^verbatim>\<open>register_sublattice\<close> assigns to no member.  The size it converts to \<^verbatim>\<open>sub_id\<close> is at
  most the largest \<^verbatim>\<open>sub_id\<close>, so the conversion keeps the value.
\<close>

definition register_sublattice :: "env \<Rightarrow> string \<Rightarrow> Lattice \<Rightarrow> nat outcome" where
  "register_sublattice E name l =
     (if name = [] then Thrown SublatticeNameBlank
      else if length (sublattices l) > sub_id_max E then Thrown SublatticeCapacity
      else if map_of (sublattices l) name \<noteq> None then Thrown (SublatticeExists name)
      else Returned (length (sublattices l)))"

definition add_sublattice ::
  "env \<Rightarrow> string \<Rightarrow> Cartesian \<Rightarrow> MatrixXcd \<Rightarrow> Lattice \<Rightarrow> unit outcome \<times> Lattice" where
  "add_sublattice E name position onsite_energy l =
     (if rows onsite_energy \<noteq> cols onsite_energy then (Thrown OnsiteNotSquare, l)
      else if \<not> isZero_double (map Im (diagonal onsite_energy))
        then (Thrown OnsiteDiagonalNotReal, l)
      else if \<not> isUpperTriangular onsite_energy \<and> onsite_energy \<noteq> adjoint onsite_energy
        then (Thrown OnsiteNotUpperTriangularOrHermitian, l)
      else (case register_sublattice E name l of
              Thrown e \<Rightarrow> (Thrown e, l)
            | Returned unique_id \<Rightarrow>
                (Returned (),
                 l\<lparr>sublattices := AList.update name
                      \<lparr>sub_position = position, sub_energy = onsite_energy,
                       sub_unique_id = unique_id, sub_alias_id = unique_id\<rparr>
                      (sublattices l)\<rparr>)))"

definition add_sublattice_scalar ::
  "env \<Rightarrow> string \<Rightarrow> Cartesian \<Rightarrow> real \<Rightarrow> Lattice \<Rightarrow> unit outcome \<times> Lattice" where
  "add_sublattice_scalar E name position onsite_energy l =
     add_sublattice E name position (Constant_1x1 (complex_of_real onsite_energy)) l"

definition add_sublattice_vector ::
  "env \<Rightarrow> string \<Rightarrow> Cartesian \<Rightarrow> real list \<Rightarrow> Lattice \<Rightarrow> unit outcome \<times> Lattice" where
  "add_sublattice_vector E name position onsite_energy l =
     add_sublattice E name position (diagonal_matrix onsite_energy) l"

definition add_alias ::
  "env \<Rightarrow> string \<Rightarrow> string \<Rightarrow> Cartesian \<Rightarrow> Lattice \<Rightarrow> unit outcome \<times> Lattice" where
  "add_alias E alias_name original_name position l =
     (case sublattice l original_name of
        Thrown e \<Rightarrow> (Thrown e, l)
      | Returned original \<Rightarrow>
          (let alias_id = sub_unique_id original in
           case register_sublattice E alias_name l of
             Thrown e \<Rightarrow> (Thrown e, l)
           | Returned unique_id \<Rightarrow>
               (Returned (),
                l\<lparr>sublattices := AList.update alias_name
                     \<lparr>sub_position = position, sub_energy = sub_energy original,
                      sub_unique_id = unique_id, sub_alias_id = alias_id\<rparr>
                     (sublattices l)\<rparr>)))"

section \<open>The hopping registry\<close>

text \<open>\<^verbatim>\<open>insert\<close> of a name-keyed container: the new registry and whether the pair went in.\<close>

definition insert_entry :: "'k \<Rightarrow> 'v \<Rightarrow> ('k \<times> 'v) list \<Rightarrow> ('k \<times> 'v) list \<times> bool" where
  "insert_entry k v xs = (if map_of xs k = None then (xs @ [(k, v)], True) else (xs, False))"

definition register_hopping_energy ::
  "env \<Rightarrow> string \<Rightarrow> MatrixXcd \<Rightarrow> Lattice \<Rightarrow> unit outcome \<times> Lattice" where
  "register_hopping_energy E name energy l =
     (if name = [] then (Thrown HoppingNameBlank, l)
      else if length (hoppings l) > hop_id_max E then (Thrown HoppingCapacity, l)
      else
        (let unique_id = length (hoppings l);
             (hs, is_unique_name) =
                insert_entry name
                  \<lparr>fam_energy = energy, fam_unique_id = unique_id, fam_terms = []\<rparr>
                  (hoppings l);
             l' = l\<lparr>hoppings := hs\<rparr>
         in if \<not> is_unique_name then (Thrown (HoppingExists name), l')
            else (Returned (), l')))"

definition register_hopping_energy_scalar ::
  "env \<Rightarrow> string \<Rightarrow> complex \<Rightarrow> Lattice \<Rightarrow> unit outcome \<times> Lattice" where
  "register_hopping_energy_scalar E name energy l =
     register_hopping_energy E name (Constant_1x1 energy) l"

text \<open>
  The test of the duplicate scan on one stored term.  Tuples are compared element by
  element from the left, so \<^verbatim>\<open>candidate == existing_conjugate\<close> first compares
  \<^verbatim>\<open>relative_index\<close> with the dead temporary and then the two identifiers, which the
  tuple refers to in the stored term.
\<close>

definition collides :: "env \<Rightarrow> Index3D \<Rightarrow> nat \<Rightarrow> nat \<Rightarrow> HoppingTerm \<Rightarrow> bool" where
  "collides E relative_index from_id to_id h =
     (let candidate = (relative_index, from_id, to_id);
          existing = (term_relative_index h, term_from h, term_to h)
      in candidate = existing
         \<or> (dangling_equal E relative_index (term_relative_index h)
            \<and> from_id = term_to h \<and> to_id = term_from h))"

text \<open>
  The last statement of the named overload indexes the registry with a name that
  \<^verbatim>\<open>hopping_family\<close> has just found, so it changes that entry in place.
\<close>

definition add_hopping ::
  "env \<Rightarrow> Index3D \<Rightarrow> string \<Rightarrow> string \<Rightarrow> string \<Rightarrow> Lattice \<Rightarrow> unit outcome \<times> Lattice"
  where
  "add_hopping E relative_index from_sub to_sub hopping_family_name l =
     (if from_sub = to_sub \<and> relative_index = Index3D_Zero
        then (Thrown HoppingZeroIndexSameSublattice, l)
      else
        (case sublattice l from_sub of
           Thrown e \<Rightarrow> (Thrown e, l)
         | Returned from \<Rightarrow>
        (case sublattice l to_sub of
           Thrown e \<Rightarrow> (Thrown e, l)
         | Returned to \<Rightarrow>
        (case hopping_family l hopping_family_name of
           Thrown e \<Rightarrow> (Thrown e, l)
         | Returned family \<Rightarrow>
        (let hop_matrix = fam_energy family in
         if rows (sub_energy from) \<noteq> rows hop_matrix \<or> cols (sub_energy to) \<noteq> cols hop_matrix
           then (Thrown HoppingSizeMismatch, l)
         else
           (let dup = list_ex (\<lambda>r. list_ex
                         (collides E relative_index (sub_unique_id from) (sub_unique_id to))
                         (fam_terms (snd r))) (hoppings l)
            in if dup then (Thrown HoppingDuplicate, l)
               else (Returned (),
                     l\<lparr>hoppings := AList.map_entry hopping_family_name
                          (\<lambda>f. f\<lparr>fam_terms := fam_terms f @
                             [\<lparr>term_relative_index = relative_index,
                               term_from = sub_unique_id from,
                               term_to = sub_unique_id to\<rparr>]\<rparr>)
                          (hoppings l)\<rparr>)))))))"

text \<open>Decimal digits of a size, as the format string prints it.\<close>

fun to_string :: "nat \<Rightarrow> string" where
  "to_string n =
     (if n < 10 then [''0123456789'' ! n]
      else to_string (n div 10) @ [''0123456789'' ! (n mod 10)])"

declare to_string.simps [simp del]

text \<open>
  The lambda of the energy overload: the name of the first family whose energy equals the
  given one, or else a fresh anonymous family, registered on the spot.
\<close>

definition hopping_name_for ::
  "env \<Rightarrow> MatrixXcd \<Rightarrow> Lattice \<Rightarrow> string outcome \<times> Lattice" where
  "hopping_name_for E energy l =
     (case find (\<lambda>r. fam_energy (snd r) = energy) (hoppings l) of
        Some it \<Rightarrow> (Returned (fst it), l)
      | None \<Rightarrow>
          (let name = ''__anonymous__'' @ to_string (length (hoppings l)) in
           case register_hopping_energy E name energy l of
             (Thrown e, l') \<Rightarrow> (Thrown e, l')
           | (Returned _, l') \<Rightarrow> (Returned name, l')))"

definition add_hopping_energy ::
  "env \<Rightarrow> Index3D \<Rightarrow> string \<Rightarrow> string \<Rightarrow> MatrixXcd \<Rightarrow> Lattice \<Rightarrow> unit outcome \<times> Lattice" where
  "add_hopping_energy E relative_index from_sub to_sub energy l =
     (case hopping_name_for E energy l of
        (Thrown e, l') \<Rightarrow> (Thrown e, l')
      | (Returned hopping_name, l') \<Rightarrow>
          add_hopping E relative_index from_sub to_sub hopping_name l')"

definition add_hopping_scalar ::
  "env \<Rightarrow> Index3D \<Rightarrow> string \<Rightarrow> string \<Rightarrow> complex \<Rightarrow> Lattice \<Rightarrow> unit outcome \<times> Lattice" where
  "add_hopping_scalar E relative_index from_sub to_sub energy l =
     add_hopping_energy E relative_index from_sub to_sub (Constant_1x1 energy) l"

section \<open>Offset and coordinates\<close>

text \<open>
  \<^verbatim>\<open>v.head(size) = x\<close> for the solution \<open>x\<close> of the solver, which has as many
  coefficients as the matrix has columns, here \<open>size\<close>.
\<close>

fun assign_head :: "nat \<Rightarrow> real list \<Rightarrow> Cartesian \<Rightarrow> Cartesian" where
  "assign_head n x (a, b, c) =
     (if 0 < n then x ! 0 else a, if 1 < n then x ! 1 else b, if 2 < n then x ! 2 else c)"

definition translate_coordinates :: "env \<Rightarrow> Lattice \<Rightarrow> Cartesian \<Rightarrow> Cartesian" where
  "translate_coordinates E l position =
     (let size = ndim l;
          lattice_matrix = map (\<lambda>i. head size (vectors l ! i)) [0..<size];
          p = head size position;
          v = (0, 0, 0)
      in assign_head size (qr_solve E lattice_matrix p) v)"

text \<open>
  The literal \<^verbatim>\<open>0.55f\<close> of the comparison in \<^verbatim>\<open>set_offset\<close>: the single-precision number
  nearest to 0.55, which is \<open>9227469 / 2^24\<close>, a little above 0.55.
\<close>

definition offset_limit :: real where
  "offset_limit = 9227469 / 16777216"

definition set_offset :: "env \<Rightarrow> Cartesian \<Rightarrow> Lattice \<Rightarrow> unit outcome \<times> Lattice" where
  "set_offset E position l =
     (if list_ex (\<lambda>x. \<bar>x\<bar> > offset_limit) (coefficients (translate_coordinates E l position))
        then (Thrown OffsetTooLarge, l)
      else (Returned (), l\<lparr>offset := position\<rparr>))"

section \<open>The compiled structure\<close>

text \<open>
  Indexing the array outside its bounds has no defined behaviour; the model gives \<open>None\<close>
  for it.  A fresh site has no hoppings; its position and alias are overwritten by the
  first loop.
\<close>

definition modify :: "nat \<Rightarrow> ('a \<Rightarrow> 'a) \<Rightarrow> 'a list \<Rightarrow> 'a list option" where
  "modify i f xs = (if i < length xs then Some (xs[i := f (xs ! i)]) else None)"

definition Site_fresh :: Site where
  "Site_fresh = \<lparr>site_position = Cartesian_Zero, site_alias = 0, site_hoppings = []\<rparr>"

fun write_sites :: "(string \<times> Sublattice) list \<Rightarrow> Site list \<Rightarrow> Site list option" where
  "write_sites [] os = Some os"
| "write_sites (pair # ps) os =
     (case modify (sub_unique_id (snd pair))
             (\<lambda>site. site\<lparr>site_position := sub_position (snd pair),
                           site_alias := sub_alias_id (snd pair)\<rparr>) os of
        None \<Rightarrow> None
      | Some os' \<Rightarrow> write_sites ps os')"

definition forward_hopping :: "nat \<Rightarrow> HoppingTerm \<Rightarrow> Hopping" where
  "forward_hopping family_id t =
     \<lparr>hop_relative_index = term_relative_index t, hop_to = term_to t,
      hop_id = family_id, hop_is_conjugate = False\<rparr>"

definition conjugate_hopping :: "nat \<Rightarrow> HoppingTerm \<Rightarrow> Hopping" where
  "conjugate_hopping family_id t =
     \<lparr>hop_relative_index = neg_index (term_relative_index t), hop_to = term_from t,
      hop_id = family_id, hop_is_conjugate = True\<rparr>"

definition push_back :: "Hopping \<Rightarrow> Site \<Rightarrow> Site" where
  "push_back h site = site\<lparr>site_hoppings := site_hoppings site @ [h]\<rparr>"

fun push_terms :: "nat \<Rightarrow> HoppingTerm list \<Rightarrow> Site list \<Rightarrow> Site list option" where
  "push_terms family_id [] os = Some os"
| "push_terms family_id (t # ts) os =
     (case modify (term_from t) (push_back (forward_hopping family_id t)) os of
        None \<Rightarrow> None
      | Some os1 \<Rightarrow>
          (case modify (term_to t) (push_back (conjugate_hopping family_id t)) os1 of
             None \<Rightarrow> None
           | Some os2 \<Rightarrow> push_terms family_id ts os2))"

fun push_families :: "(string \<times> HoppingFamily) list \<Rightarrow> Site list \<Rightarrow> Site list option" where
  "push_families [] os = Some os"
| "push_families (pair # ps) os =
     (case push_terms (fam_unique_id (snd pair)) (fam_terms (snd pair)) os of
        None \<Rightarrow> None
      | Some os' \<Rightarrow> push_families ps os')"

definition optimized_structure :: "Lattice \<Rightarrow> OptimizedLatticeStructure option" where
  "optimized_structure l =
     (case write_sites (sublattices l) (replicate (nsub l) Site_fresh) of
        None \<Rightarrow> None
      | Some os \<Rightarrow> push_families (hoppings l) os)"

section \<open>Building a lattice\<close>

text \<open>
  A lattice is built by the constructor and a sequence of calls of its member functions.
  A call that throws leaves the lattice as the throw found it, and the caller may go on.
  The scalar and vector overloads are calls of the matrix overloads.  Going on with the
  copy that \<^verbatim>\<open>with_offset\<close> returns is going on after \<^verbatim>\<open>set_offset\<close>; going on with the
  copy that \<^verbatim>\<open>with_min_neighbors\<close> returns is the last kind of call.
\<close>

datatype call =
    AddSublattice string Cartesian MatrixXcd
  | AddAlias string string Cartesian
  | RegisterHoppingEnergy string MatrixXcd
  | AddHopping Index3D string string string
  | AddHoppingEnergy Index3D string string MatrixXcd
  | SetOffset Cartesian
  | WithMinNeighbors int

fun exec :: "env \<Rightarrow> call \<Rightarrow> Lattice \<Rightarrow> unit outcome \<times> Lattice" where
  "exec E (AddSublattice name position energy) l = add_sublattice E name position energy l"
| "exec E (AddAlias alias_name original_name position) l =
     add_alias E alias_name original_name position l"
| "exec E (RegisterHoppingEnergy name energy) l = register_hopping_energy E name energy l"
| "exec E (AddHopping d from_sub to_sub name) l = add_hopping E d from_sub to_sub name l"
| "exec E (AddHoppingEnergy d from_sub to_sub energy) l =
     add_hopping_energy E d from_sub to_sub energy l"
| "exec E (SetOffset position) l = set_offset E position l"
| "exec E (WithMinNeighbors number) l = (Returned (), l\<lparr>min_neighbors := number\<rparr>)"

fun build :: "env \<Rightarrow> call list \<Rightarrow> Lattice \<Rightarrow> Lattice" where
  "build E [] l = l"
| "build E (c # cs) l = build E cs (snd (exec E c l))"

section \<open>Derived lattices\<close>

text \<open>
  Lattice objects live in a store, addressed by their position in it; a new object gets
  the next address.  \<^verbatim>\<open>with_offset\<close> and \<^verbatim>\<open>with_min_neighbors\<close> copy the receiver into
  a new object, change the copy and return it; when \<^verbatim>\<open>set_offset\<close> throws, the copy is
  destroyed with the frame and nothing is returned.
\<close>

type_synonym store = "Lattice list"

definition at_object ::
  "nat \<Rightarrow> (Lattice \<Rightarrow> 'a outcome \<times> Lattice) \<Rightarrow> store \<Rightarrow> 'a outcome \<times> store" where
  "at_object this f s = (let (r, l') = f (s ! this) in (r, s[this := l']))"

definition with_offset :: "env \<Rightarrow> Cartesian \<Rightarrow> nat \<Rightarrow> store \<Rightarrow> nat outcome \<times> store" where
  "with_offset E position this s =
     (let new_lattice = s ! this
      in case set_offset E position new_lattice of
           (Thrown e, _) \<Rightarrow> (Thrown e, s)
         | (Returned _, new_lattice') \<Rightarrow> (Returned (length s), s @ [new_lattice']))"

definition with_min_neighbors :: "int \<Rightarrow> nat \<Rightarrow> store \<Rightarrow> nat outcome \<times> store" where
  "with_min_neighbors number this s =
     (let new_lattice = s ! this;
          new_lattice' = new_lattice\<lparr>min_neighbors := number\<rparr>
      in (Returned (length s), s @ [new_lattice']))"

section \<open>Example values\<close>

text \<open>
  An instance of the parameters for the examples: both identifier types are
  \<^verbatim>\<open>std::int8_t\<close>, and the solver divides each right-hand side coefficient by the
  diagonal coefficient of its column, which is the exact solution when the matrix is
  diagonal.  In \<open>example_env\<close> the comparison with the dead temporary still finds
  \<^verbatim>\<open>-h.relative_index\<close> there; in \<open>optimized_env\<close> it never compares equal.
\<close>

definition diag_solve :: "real list list \<Rightarrow> real list \<Rightarrow> real list" where
  "diag_solve m p = map (\<lambda>i. p ! i / (m ! i ! i)) [0..<length p]"

definition example_env :: env where
  "example_env =
     \<lparr>sub_id_max = 127, hop_id_max = 127, qr_solve = diag_solve,
      dangling_equal = (\<lambda>relative_index existing. relative_index = neg_index existing)\<rparr>"

definition optimized_env :: env where
  "optimized_env = example_env\<lparr>dangling_equal := (\<lambda>relative_index existing. False)\<rparr>"

text \<open>A chain along x and a square lattice in the xy-plane, with nothing registered.\<close>

definition chain_lattice :: Lattice where
  "chain_lattice = Lattice_ctor (1, 0, 0) (0, 0, 0) (0, 0, 0)"

definition square_lattice :: Lattice where
  "square_lattice = Lattice_ctor (1, 0, 0) (0, 1, 0) (0, 0, 0)"

text \<open>
  The scenario of the specification: a square lattice, one sublattice \<open>A\<close> at the origin
  with the scalar onsite energy 0, and one family \<open>t\<close> of energy \<open>-1\<close> with the term
  \<open>((1,0,0), A, A)\<close>.
\<close>

definition scenario_calls :: "call list" where
  "scenario_calls =
     [AddSublattice ''A'' (0, 0, 0) (Constant_1x1 0),
      RegisterHoppingEnergy ''t'' (Constant_1x1 (- 1)),
      AddHopping (1, 0, 0) ''A'' ''A'' ''t'']"

definition scenario_lattice :: Lattice where
  "scenario_lattice = build example_env scenario_calls square_lattice"

section \<open>What the registries of a built lattice satisfy\<close>

text \<open>
  The identifiers of the sublattices are \<open>0, 1, 2, \<dots>\<close> in registration order, and every
  stored hopping term names two identifiers in use and is not a zero-offset term from a
  sublattice to itself.
\<close>

definition well_formed :: "Lattice \<Rightarrow> bool" where
  "well_formed l \<longleftrightarrow>
     map (\<lambda>p. sub_unique_id (snd p)) (sublattices l) = [0..<length (sublattices l)]
     \<and> list_all (\<lambda>r. list_all (\<lambda>t.
            term_from t < length (sublattices l) \<and> term_to t < length (sublattices l)
            \<and> \<not> (term_from t = term_to t \<and> term_relative_index t = Index3D_Zero))
          (fam_terms (snd r))) (hoppings l)"

text \<open>
  The compiled hoppings of a structure, each paired with the index of the site whose list
  holds it; the two compiled hoppings that a term of a family stands for, paired with their
  sites; and those of all the terms of all the families of a lattice.
\<close>

definition compiled_entries :: "Site list \<Rightarrow> (nat \<times> Hopping) list" where
  "compiled_entries os =
     concat (map (\<lambda>p. map (Pair (fst p)) (snd p)) (enumerate 0 (map site_hoppings os)))"

definition term_entries :: "nat \<Rightarrow> HoppingTerm \<Rightarrow> (nat \<times> Hopping) list" where
  "term_entries family_id t =
     [(term_from t,
       \<lparr>hop_relative_index = term_relative_index t, hop_to = term_to t,
        hop_id = family_id, hop_is_conjugate = False\<rparr>),
      (term_to t,
       \<lparr>hop_relative_index = neg_index (term_relative_index t), hop_to = term_from t,
        hop_id = family_id, hop_is_conjugate = True\<rparr>)]"

definition registry_entries :: "Lattice \<Rightarrow> (nat \<times> Hopping) list" where
  "registry_entries l =
     concat (map (\<lambda>r. concat (map (term_entries (fam_unique_id (snd r))) (fam_terms (snd r))))
       (hoppings l))"

text \<open>
  Four calls on the square lattice; the second repeats a name and throws.
\<close>

definition three_site_calls :: "call list" where
  "three_site_calls =
     [AddSublattice ''A'' (0, 0, 0) [[0]],
      AddSublattice ''A'' (1 / 2, 0, 0) [[1]],
      AddSublattice ''B'' (1 / 2, 0, 0) [[1, \<i>], [- \<i>, 2]],
      AddAlias ''A2'' ''A'' (0, 1 / 2, 0)]"

text \<open>
  The product of a square matrix, given by its columns, with a vector; and a chain whose
  primitive vector has length 2.
\<close>

definition mat_vec :: "real list list \<Rightarrow> real list \<Rightarrow> real list" where
  "mat_vec columns x =
     map (\<lambda>k. sum_list (map (\<lambda>i. columns ! i ! k * x ! i) [0..<length columns]))
       [0..<length columns]"

definition stretched_chain :: Lattice where
  "stretched_chain = Lattice_ctor (2, 0, 0) (0, 0, 0) (0, 0, 0)"

section \<open>Properties of the numeric predicates\<close>

lemma fold_max_ge_init:
  "init \<le> fold (\<lambda>absValue acc. if absValue > acc then absValue else acc) xs (init::real)"
proof (induction xs arbitrary: init)
  case Nil
  show ?case by simp
next
  case (Cons a xs)
  have "init \<le> (if a > init then a else init)" by simp
  also have "\<dots> \<le> fold (\<lambda>absValue acc. if absValue > acc then absValue else acc) xs
      (if a > init then a else init)"
    by (rule Cons.IH)
  finally show ?case by simp
qed

lemma fold_max_ge_mem:
  "x \<in> set xs \<Longrightarrow>
   x \<le> fold (\<lambda>absValue acc. if absValue > acc then absValue else acc) xs (init::real)"
proof (induction xs arbitrary: init)
  case Nil
  then show ?case by simp
next
  case (Cons a xs)
  show ?case
  proof (cases "x = a")
    case True
    have "x \<le> (if a > init then a else init)" using True by simp
    also have "\<dots> \<le> fold (\<lambda>absValue acc. if absValue > acc then absValue else acc) xs
        (if a > init then a else init)"
      by (rule fold_max_ge_init)
    finally show ?thesis by simp
  next
    case False
    with Cons.prems have "x \<in> set xs" by simp
    then show ?thesis using Cons.IH by simp
  qed
qed

lemma maxAbsOnUpperPart_nonneg:
  assumes "0 < rows m" and "0 < cols m"
  shows "0 \<le> maxAbsOnUpperPart m"
proof -
  have "0 \<in> set [0..<cols m]" using assms by simp
  moreover have "0 \<in> set [0..<min (Suc 0) (rows m)]" using assms by simp
  ultimately have "cmod (coeff m 0 0) \<in> set (upper_part m)"
    unfolding upper_part_def by (auto intro!: bexI [where x = 0])
  then have "cmod (coeff m 0 0) \<le> maxAbsOnUpperPart m"
    unfolding maxAbsOnUpperPart_def by (rule fold_max_ge_mem)
  moreover have "0 \<le> cmod (coeff m 0 0)" by simp
  ultimately show ?thesis by linarith
qed

lemma exact_upper_isUpperTriangular:
  assumes "\<forall>i<rows m. \<forall>j<cols m. j < i \<longrightarrow> coeff m i j = 0"
  shows "isUpperTriangular m"
proof -
  have "\<not> cmod (coeff m i j) > maxAbsOnUpperPart m * dummy_precision_double"
    if "j < cols m" and "Suc j \<le> i" and "i < rows m" for i j
  proof -
    have "coeff m i j = 0" using assms that by auto
    moreover have "0 \<le> maxAbsOnUpperPart m"
      using that by (intro maxAbsOnUpperPart_nonneg) auto
    ultimately show ?thesis by (simp add: dummy_precision_double_def)
  qed
  then show ?thesis
    by (simp add: isUpperTriangular_def list_all_iff)
qed

lemma real_diagonal_isZero:
  assumes "\<forall>i<min (rows m) (cols m). Im (coeff m i i) = 0"
  shows "isZero_double (map Im (diagonal m))"
  using assms
  by (simp add: isZero_double_def diagonal_def list_all_iff isMuchSmallerThan_def
      dummy_precision_double_def)

lemma update_fresh:
  "map_of xs k = None \<Longrightarrow> AList.update k v xs = xs @ [(k, v)]"
  by (induction xs) (auto split: if_splits)

lemma isZero_double_diagonal_iff:
  "isZero_double (map Im (diagonal m)) \<longleftrightarrow>
     (\<forall>i<min (rows m) (cols m). \<bar>Im (coeff m i i)\<bar> \<le> dummy_precision_double)"
  by (auto simp: isZero_double_def diagonal_def list_all_iff isMuchSmallerThan_def)

lemma register_sublattice_fresh:
  assumes "name \<noteq> []" and "map_of (sublattices l) name = None"
    and "length (sublattices l) \<le> sub_id_max E"
  shows "register_sublattice E name l = Returned (length (sublattices l))"
  using assms by (simp add: register_sublattice_def)

section \<open>Validation of the onsite energy\<close>

text \<open>
  Claim C4, as the code has it.  For a fresh non-blank name and a registry below capacity,
  \<^verbatim>\<open>add_sublattice\<close> throws when the matrix is not square, when some diagonal entry has
  an imaginary part above \<open>1e-12\<close> in magnitude, and when the matrix is neither upper
  triangular within Eigen's tolerance nor equal to its conjugate transpose; in every other
  case it returns and appends the sublattice.  In particular it returns whenever the
  matrix is square, its diagonal is real, and it is upper triangular or Hermitian.
\<close>

theorem add_sublattice_validation:
  assumes "name \<noteq> []" and "map_of (sublattices l) name = None"
    and "length (sublattices l) \<le> sub_id_max E"
  shows "(rows m \<noteq> cols m \<longrightarrow>
            add_sublattice E name position m l = (Thrown OnsiteNotSquare, l))
       \<and> (rows m = cols m \<and> (\<exists>i<rows m. \<bar>Im (coeff m i i)\<bar> > dummy_precision_double) \<longrightarrow>
            add_sublattice E name position m l = (Thrown OnsiteDiagonalNotReal, l))
       \<and> (rows m = cols m \<and> (\<forall>i<rows m. \<bar>Im (coeff m i i)\<bar> \<le> dummy_precision_double)
            \<and> \<not> isUpperTriangular m \<and> m \<noteq> adjoint m \<longrightarrow>
            add_sublattice E name position m l
              = (Thrown OnsiteNotUpperTriangularOrHermitian, l))
       \<and> (rows m = cols m \<and> (\<forall>i<rows m. \<bar>Im (coeff m i i)\<bar> \<le> dummy_precision_double)
            \<and> (isUpperTriangular m \<or> m = adjoint m) \<longrightarrow>
            add_sublattice E name position m l
              = (Returned (),
                 l\<lparr>sublattices := sublattices l @
                     [(name, \<lparr>sub_position = position, sub_energy = m,
                              sub_unique_id = length (sublattices l),
                              sub_alias_id = length (sublattices l)\<rparr>)]\<rparr>))
       \<and> (rows m = cols m \<and> (\<forall>i<rows m. Im (coeff m i i) = 0)
            \<and> ((\<forall>i<rows m. \<forall>j<cols m. j < i \<longrightarrow> coeff m i j = 0) \<or> m = adjoint m) \<longrightarrow>
            fst (add_sublattice E name position m l) = Returned ())"
proof (intro conjI impI)
  assume "rows m \<noteq> cols m"
  then show "add_sublattice E name position m l = (Thrown OnsiteNotSquare, l)"
    by (simp add: add_sublattice_def)
next
  assume "rows m = cols m \<and> (\<exists>i<rows m. \<bar>Im (coeff m i i)\<bar> > dummy_precision_double)"
  then have "rows m = cols m" and "\<not> isZero_double (map Im (diagonal m))"
    by (auto simp: isZero_double_diagonal_iff not_le)
  then show "add_sublattice E name position m l = (Thrown OnsiteDiagonalNotReal, l)"
    by (simp add: add_sublattice_def)
next
  assume "rows m = cols m \<and> (\<forall>i<rows m. \<bar>Im (coeff m i i)\<bar> \<le> dummy_precision_double)
            \<and> \<not> isUpperTriangular m \<and> m \<noteq> adjoint m"
  then have "rows m = cols m" and "isZero_double (map Im (diagonal m))"
    and "\<not> isUpperTriangular m" and "m \<noteq> adjoint m"
    by (auto simp: isZero_double_diagonal_iff)
  then show "add_sublattice E name position m l
      = (Thrown OnsiteNotUpperTriangularOrHermitian, l)"
    by (simp add: add_sublattice_def)
next
  assume "rows m = cols m \<and> (\<forall>i<rows m. \<bar>Im (coeff m i i)\<bar> \<le> dummy_precision_double)
            \<and> (isUpperTriangular m \<or> m = adjoint m)"
  then have "rows m = cols m" and "isZero_double (map Im (diagonal m))"
    and "isUpperTriangular m \<or> m = adjoint m"
    by (auto simp: isZero_double_diagonal_iff)
  then show "add_sublattice E name position m l
      = (Returned (),
         l\<lparr>sublattices := sublattices l @
             [(name, \<lparr>sub_position = position, sub_energy = m,
                      sub_unique_id = length (sublattices l),
                      sub_alias_id = length (sublattices l)\<rparr>)]\<rparr>)"
    using assms
    by (auto simp: add_sublattice_def register_sublattice_fresh update_fresh)
next
  assume a: "rows m = cols m \<and> (\<forall>i<rows m. Im (coeff m i i) = 0)
            \<and> ((\<forall>i<rows m. \<forall>j<cols m. j < i \<longrightarrow> coeff m i j = 0) \<or> m = adjoint m)"
  then have "isZero_double (map Im (diagonal m))"
    by (intro real_diagonal_isZero) simp
  moreover have "isUpperTriangular m \<or> m = adjoint m"
    using a exact_upper_isUpperTriangular by blast
  ultimately show "fst (add_sublattice E name position m l) = Returned ()"
    using a assms
    by (auto simp: add_sublattice_def register_sublattice_fresh)
qed

lemmas eval_defs = example_env_def chain_lattice_def square_lattice_def
  Lattice_ctor_def isZero_double_def isZero_float_def isMuchSmallerThan_def diagonal_def
  isUpperTriangular_def maxAbsOnUpperPart_def upper_part_def coeff_def rows_def cols_def
  dummy_precision_double_def dummy_precision_float_def adjoint_def Cartesian_Zero_def
  Index3D_Zero_def

theorem add_sublattice_validation_witness:
  "add_sublattice example_env ''A'' (0, 0, 0) [[1, 2]] chain_lattice
     = (Thrown OnsiteNotSquare, chain_lattice)
   \<and> add_sublattice example_env ''A'' (0, 0, 0) [[\<i>]] chain_lattice
     = (Thrown OnsiteDiagonalNotReal, chain_lattice)
   \<and> add_sublattice example_env ''A'' (0, 0, 0) [[1, 0], [1, 1]] chain_lattice
     = (Thrown OnsiteNotUpperTriangularOrHermitian, chain_lattice)
   \<and> add_sublattice example_env ''A'' (0, 0, 0) [[1, \<i>], [- \<i>, 1]] chain_lattice
     = (Returned (),
        chain_lattice\<lparr>sublattices :=
          [(''A'', \<lparr>sub_position = (0, 0, 0), sub_energy = [[1, \<i>], [- \<i>, 1]],
                    sub_unique_id = 0, sub_alias_id = 0\<rparr>)]\<rparr>)
   \<and> fst (add_sublattice example_env ''A'' (0, 0, 0) [[1, 2], [0, 3]] chain_lattice)
     = Returned ()"
proof -
  have h: "''A'' \<noteq> []" "map_of (sublattices chain_lattice) ''A'' = None"
    "length (sublattices chain_lattice) \<le> sub_id_max example_env"
    by (simp_all add: chain_lattice_def Lattice_ctor_def example_env_def)
  have s: "sublattices chain_lattice = []"
    by (simp add: chain_lattice_def Lattice_ctor_def)
  note t = add_sublattice_validation [OF h]
  have 1: "rows [[1, 2 :: complex]] \<noteq> cols [[1, 2 :: complex]]"
    by (simp add: rows_def cols_def)
  have 2: "rows [[\<i>]] = cols [[\<i>]] \<and> (\<exists>i<rows [[\<i>]]. \<bar>Im (coeff [[\<i>]] i i)\<bar> > dummy_precision_double)"
    by (simp add: rows_def cols_def coeff_def dummy_precision_double_def)
  have 3: "rows [[1, 0], [1, 1 :: complex]] = cols [[1, 0], [1, 1 :: complex]]
      \<and> (\<forall>i<rows [[1, 0], [1, 1 :: complex]].
            \<bar>Im (coeff [[1, 0], [1, 1 :: complex]] i i)\<bar> \<le> dummy_precision_double)
      \<and> \<not> isUpperTriangular [[1, 0], [1, 1]]
      \<and> [[1, 0], [1, 1 :: complex]] \<noteq> adjoint [[1, 0], [1, 1]]"
    by (simp add: rows_def cols_def coeff_def dummy_precision_double_def isUpperTriangular_def
        maxAbsOnUpperPart_def upper_part_def adjoint_def upt_rec less_Suc_eq all_conj_distrib)
  have 4: "rows [[1, \<i>], [- \<i>, 1]] = cols [[1, \<i>], [- \<i>, 1]]
      \<and> (\<forall>i<rows [[1, \<i>], [- \<i>, 1]].
            \<bar>Im (coeff [[1, \<i>], [- \<i>, 1]] i i)\<bar> \<le> dummy_precision_double)
      \<and> (isUpperTriangular [[1, \<i>], [- \<i>, 1]]
          \<or> [[1, \<i>], [- \<i>, 1]] = adjoint [[1, \<i>], [- \<i>, 1]])"
    by (simp add: rows_def cols_def coeff_def dummy_precision_double_def adjoint_def
        less_Suc_eq all_conj_distrib)
  have 5: "rows [[1, 2], [0, 3 :: complex]] = cols [[1, 2], [0, 3 :: complex]]
      \<and> (\<forall>i<rows [[1, 2], [0, 3 :: complex]]. Im (coeff [[1, 2], [0, 3 :: complex]] i i) = 0)
      \<and> ((\<forall>i<rows [[1, 2], [0, 3 :: complex]]. \<forall>j<cols [[1, 2], [0, 3 :: complex]].
             j < i \<longrightarrow> coeff [[1, 2], [0, 3 :: complex]] i j = 0)
          \<or> [[1, 2], [0, 3 :: complex]] = adjoint [[1, 2], [0, 3]])"
    by (simp add: rows_def cols_def coeff_def less_Suc_eq all_conj_distrib)
  have r1: "add_sublattice example_env ''A'' (0, 0, 0) [[1, 2]] chain_lattice
      = (Thrown OnsiteNotSquare, chain_lattice)"
    using t [of "[[1, 2]]" "(0, 0, 0)"] 1 by blast
  have r2: "add_sublattice example_env ''A'' (0, 0, 0) [[\<i>]] chain_lattice
      = (Thrown OnsiteDiagonalNotReal, chain_lattice)"
    using t [of "[[\<i>]]" "(0, 0, 0)"] 2 by blast
  have r3: "add_sublattice example_env ''A'' (0, 0, 0) [[1, 0], [1, 1]] chain_lattice
      = (Thrown OnsiteNotUpperTriangularOrHermitian, chain_lattice)"
    using t [of "[[1, 0], [1, 1]]" "(0, 0, 0)"] 3 by blast
  have r4: "add_sublattice example_env ''A'' (0, 0, 0) [[1, \<i>], [- \<i>, 1]] chain_lattice
      = (Returned (),
         chain_lattice\<lparr>sublattices := sublattices chain_lattice @
           [(''A'', \<lparr>sub_position = (0, 0, 0), sub_energy = [[1, \<i>], [- \<i>, 1]],
                     sub_unique_id = length (sublattices chain_lattice),
                     sub_alias_id = length (sublattices chain_lattice)\<rparr>)]\<rparr>)"
    using t [of "[[1, \<i>], [- \<i>, 1]]" "(0, 0, 0)"] 4 by blast
  have r5: "fst (add_sublattice example_env ''A'' (0, 0, 0) [[1, 2], [0, 3]] chain_lattice)
      = Returned ()"
    using t [of "[[1, 2], [0, 3]]" "(0, 0, 0)"] 5 by blast
  show ?thesis
    using r1 r2 r3 r4 r5 by (simp add: s)
qed

text \<open>
  A diagonal entry with the imaginary part \<open>2^-50\<close> is not real, and a matrix with \<open>2^-50\<close>
  below the diagonal is neither upper triangular nor Hermitian; both are accepted.
\<close>

theorem add_sublattice_validation_counterexample:
  "Im (coeff [[Complex 0 (1 / 1125899906842624)]] 0 0) \<noteq> 0
   \<and> fst (add_sublattice example_env ''A'' (0, 0, 0) [[Complex 0 (1 / 1125899906842624)]]
            chain_lattice) = Returned ()
   \<and> coeff [[1, 0], [complex_of_real (1 / 1125899906842624), 1]] 1 0 \<noteq> 0
   \<and> [[1, 0], [complex_of_real (1 / 1125899906842624), 1]]
       \<noteq> adjoint [[1, 0], [complex_of_real (1 / 1125899906842624), 1]]
   \<and> fst (add_sublattice example_env ''A'' (0, 0, 0)
            [[1, 0], [complex_of_real (1 / 1125899906842624), 1]] chain_lattice) = Returned ()"
  by (simp add: add_sublattice_def register_sublattice_def eval_defs upt_rec)

section \<open>The constructor\<close>

text \<open>
  Claim C9, as the code has it.  The constructor keeps \<open>a1\<close> and then each of \<open>a2\<close>, \<open>a3\<close>
  that \<^verbatim>\<open>isZero()\<close> does not hold of, in this order; the dimensionality is one plus the
  number of vectors kept, and when \<open>a2\<close> is dropped and \<open>a3\<close> kept, \<open>a3\<close> is the second
  primitive vector.  \<^verbatim>\<open>isZero()\<close> holds of the zero vector, and of exactly the vectors whose
  three components have magnitude at most \<open>1e-5\<close>.
\<close>

theorem constructor_vectors:
  "vectors (Lattice_ctor a1 a2 a3) = a1 # filter (\<lambda>v. \<not> isZero_float v) [a2, a3]
   \<and> ndim (Lattice_ctor a1 a2 a3) = 1 + length (filter (\<lambda>v. \<not> isZero_float v) [a2, a3])
   \<and> (isZero_float a2 \<and> \<not> isZero_float a3 \<longrightarrow> vectors (Lattice_ctor a1 a2 a3) ! 1 = a3)
   \<and> isZero_float Cartesian_Zero
   \<and> isZero_float (x, y, z) = (\<bar>x\<bar> \<le> 1 / 100000 \<and> \<bar>y\<bar> \<le> 1 / 100000 \<and> \<bar>z\<bar> \<le> 1 / 100000)"
  by (simp add: Lattice_ctor_def ndim_def isZero_float_def isMuchSmallerThan_def
      dummy_precision_float_def Cartesian_Zero_def)

theorem constructor_vectors_witness:
  "isZero_float (0, 0, 0) \<and> \<not> isZero_float (0, 0, 1)
   \<and> vectors (Lattice_ctor (1, 0, 0) (0, 0, 0) (0, 0, 1)) = [(1, 0, 0), (0, 0, 1)]
   \<and> ndim (Lattice_ctor (1, 0, 0) (0, 0, 0) (0, 0, 1)) = 2
   \<and> vectors (Lattice_ctor (1, 0, 0) (0, 0, 0) (0, 0, 1)) ! 1 = (0, 0, 1)"
proof -
  have z: "isZero_float (0, 0, 0) \<and> \<not> isZero_float (0, 0, 1)"
    by (simp add: isZero_float_def isMuchSmallerThan_def dummy_precision_float_def)
  show ?thesis
    using constructor_vectors [of "(1, 0, 0)" "(0, 0, 0)" "(0, 0, 1)" 0 0 0] z
    by simp
qed

text \<open>
  The vector \<open>(2^-20, 0, 0)\<close> is not the zero vector, and the constructor drops it.
\<close>

theorem constructor_vectors_counterexample:
  "(1 / 1048576, 0, 0) \<noteq> Cartesian_Zero
   \<and> vectors (Lattice_ctor (1, 0, 0) (1 / 1048576, 0, 0) (0, 0, 0)) = [(1, 0, 0)]
   \<and> ndim (Lattice_ctor (1, 0, 0) (1 / 1048576, 0, 0) (0, 0, 0)) = 1"
  by (simp add: Lattice_ctor_def ndim_def isZero_float_def isMuchSmallerThan_def
      dummy_precision_float_def Cartesian_Zero_def)

section \<open>Hoppings within one site\<close>

lemma add_hopping_zero_same:
  "add_hopping E Index3D_Zero sub sub family_name l = (Thrown HoppingZeroIndexSameSublattice, l)"
  by (simp add: add_hopping_def)

text \<open>
  Claim C6.  Every \<^verbatim>\<open>add_hopping\<close> call with the zero relative index and equal source
  and destination names throws, for every lattice, every family name and every energy
  matrix or scalar, whether or not the names are registered.
\<close>

theorem add_hopping_zero_index_same_sublattice:
  "add_hopping E Index3D_Zero sub sub family_name l = (Thrown HoppingZeroIndexSameSublattice, l)
   \<and> is_thrown (fst (add_hopping_energy E Index3D_Zero sub sub energy l))
   \<and> is_thrown (fst (add_hopping_scalar E Index3D_Zero sub sub e l))"
  by (simp add: add_hopping_zero_same add_hopping_energy_def add_hopping_scalar_def
      split: prod.splits outcome.splits)

theorem add_hopping_zero_index_same_sublattice_witness:
  "add_hopping example_env Index3D_Zero ''A'' ''A'' ''t'' chain_lattice
     = (Thrown HoppingZeroIndexSameSublattice, chain_lattice)
   \<and> is_thrown (fst (add_hopping_energy example_env Index3D_Zero ''A'' ''A'' [[1, 2], [3, 4]]
        chain_lattice))
   \<and> is_thrown (fst (add_hopping_scalar example_env Index3D_Zero ''A'' ''A'' 1 chain_lattice))"
  using add_hopping_zero_index_same_sublattice
    [of example_env "''A''" "''t''" chain_lattice "[[1, 2], [3, 4]]" 1]
  by simp

section \<open>The offset\<close>

text \<open>
  Claim C7, as the code has it.  The bound of the comparison is the single-precision
  literal \<^verbatim>\<open>0.55f\<close>, which is \<open>9227469 / 2^24\<close> and lies above 0.55.  When every fractional
  coordinate of the position, as \<^verbatim>\<open>translate_coordinates\<close> gives them, has magnitude at
  most \<^verbatim>\<open>0.55f\<close> (so, in particular, at most 0.55), \<^verbatim>\<open>set_offset\<close> returns and stores the
  position as the offset; when one of them exceeds \<^verbatim>\<open>0.55f\<close> in magnitude it throws and
  leaves the lattice as it was.
\<close>

theorem set_offset_bound:
  "(list_all (\<lambda>x. \<bar>x\<bar> \<le> offset_limit) (coefficients (translate_coordinates E l position))
      \<longrightarrow> set_offset E position l = (Returned (), l\<lparr>offset := position\<rparr>))
   \<and> (list_all (\<lambda>x. \<bar>x\<bar> \<le> 55 / 100) (coefficients (translate_coordinates E l position))
      \<longrightarrow> set_offset E position l = (Returned (), l\<lparr>offset := position\<rparr>))
   \<and> (list_ex (\<lambda>x. \<bar>x\<bar> > offset_limit) (coefficients (translate_coordinates E l position))
      \<longrightarrow> set_offset E position l = (Thrown OffsetTooLarge, l))
   \<and> offset_limit = 9227469 / 16777216
   \<and> 55 / 100 < offset_limit"
proof (intro conjI impI)
  assume "list_all (\<lambda>x. \<bar>x\<bar> \<le> offset_limit)
      (coefficients (translate_coordinates E l position))"
  then have "\<not> list_ex (\<lambda>x. \<bar>x\<bar> > offset_limit)
      (coefficients (translate_coordinates E l position))"
    by (auto simp: list_all_iff list_ex_iff)
  then show "set_offset E position l = (Returned (), l\<lparr>offset := position\<rparr>)"
    by (simp add: set_offset_def)
next
  have below: "(55 / 100 :: real) < offset_limit"
    by (simp add: offset_limit_def)
  assume "list_all (\<lambda>x. \<bar>x\<bar> \<le> 55 / 100)
      (coefficients (translate_coordinates E l position))"
  then have "\<forall>x \<in> set (coefficients (translate_coordinates E l position)). \<bar>x\<bar> \<le> 55 / 100"
    by (simp add: list_all_iff)
  then have "\<forall>x \<in> set (coefficients (translate_coordinates E l position)).
      \<not> \<bar>x\<bar> > offset_limit"
    using below by fastforce
  then have "\<not> list_ex (\<lambda>x. \<bar>x\<bar> > offset_limit)
      (coefficients (translate_coordinates E l position))"
    by (simp add: list_ex_iff)
  then show "set_offset E position l = (Returned (), l\<lparr>offset := position\<rparr>)"
    by (simp add: set_offset_def)
next
  assume "list_ex (\<lambda>x. \<bar>x\<bar> > offset_limit)
      (coefficients (translate_coordinates E l position))"
  then show "set_offset E position l = (Thrown OffsetTooLarge, l)"
    by (simp add: set_offset_def)
next
  show "offset_limit = 9227469 / 16777216"
    by (simp add: offset_limit_def)
next
  show "(55 / 100 :: real) < offset_limit"
    by (simp add: offset_limit_def)
qed

lemmas eval_offset = set_offset_def translate_coordinates_def ndim_def head_def diag_solve_def
  offset_limit_def eval_defs

theorem set_offset_bound_witness:
  "list_all (\<lambda>x. \<bar>x\<bar> \<le> 55 / 100)
     (coefficients (translate_coordinates example_env square_lattice (1 / 2, - 1 / 4, 7)))
   \<and> set_offset example_env (1 / 2, - 1 / 4, 7) square_lattice
       = (Returned (), square_lattice\<lparr>offset := (1 / 2, - 1 / 4, 7)\<rparr>)
   \<and> list_all (\<lambda>x. \<bar>x\<bar> \<le> offset_limit)
       (coefficients (translate_coordinates example_env square_lattice
          (0, - 9227469 / 16777216, 0)))
   \<and> set_offset example_env (0, - 9227469 / 16777216, 0) square_lattice
       = (Returned (), square_lattice\<lparr>offset := (0, - 9227469 / 16777216, 0)\<rparr>)
   \<and> list_ex (\<lambda>x. \<bar>x\<bar> > offset_limit)
       (coefficients (translate_coordinates example_env square_lattice (1 / 2, 3 / 5, 0)))
   \<and> set_offset example_env (1 / 2, 3 / 5, 0) square_lattice
       = (Thrown OffsetTooLarge, square_lattice)"
proof -
  have a: "list_all (\<lambda>x. \<bar>x\<bar> \<le> 55 / 100)
     (coefficients (translate_coordinates example_env square_lattice (1 / 2, - 1 / 4, 7)))"
    by (simp add: eval_offset upt_rec)
  have b: "list_all (\<lambda>x. \<bar>x\<bar> \<le> offset_limit)
       (coefficients (translate_coordinates example_env square_lattice
          (0, - 9227469 / 16777216, 0)))"
    by (simp add: eval_offset upt_rec)
  have c: "list_ex (\<lambda>x. \<bar>x\<bar> > offset_limit)
       (coefficients (translate_coordinates example_env square_lattice (1 / 2, 3 / 5, 0)))"
    by (simp add: eval_offset upt_rec)
  have ra: "set_offset example_env (1 / 2, - 1 / 4, 7) square_lattice
       = (Returned (), square_lattice\<lparr>offset := (1 / 2, - 1 / 4, 7)\<rparr>)"
    using a set_offset_bound [of example_env square_lattice "(1 / 2, - 1 / 4, 7)"] by blast
  have rb: "set_offset example_env (0, - 9227469 / 16777216, 0) square_lattice
       = (Returned (), square_lattice\<lparr>offset := (0, - 9227469 / 16777216, 0)\<rparr>)"
    using b set_offset_bound [of example_env square_lattice "(0, - 9227469 / 16777216, 0)"]
    by blast
  have rc: "set_offset example_env (1 / 2, 3 / 5, 0) square_lattice
       = (Thrown OffsetTooLarge, square_lattice)"
    using c set_offset_bound [of example_env square_lattice "(1 / 2, 3 / 5, 0)"] by blast
  show ?thesis
    using a b c ra rb rc by simp
qed

text \<open>
  On the chain lattice the fractional coordinate of the position \<open>(0.55f, 0, 0)\<close> is
  \<^verbatim>\<open>0.55f\<close> itself: it exceeds 0.55, and \<^verbatim>\<open>set_offset\<close> returns.
\<close>

theorem set_offset_bound_counterexample:
  "coefficients (translate_coordinates example_env chain_lattice (9227469 / 16777216, 0, 0))
     = [9227469 / 16777216, 0, 0]
   \<and> (55 / 100 :: real) < \<bar>9227469 / 16777216\<bar>
   \<and> set_offset example_env (9227469 / 16777216, 0, 0) chain_lattice
     = (Returned (), chain_lattice\<lparr>offset := (9227469 / 16777216, 0, 0)\<rparr>)"
  by (simp add: eval_offset upt_rec)

lemma translate_coordinates_head:
  "head (ndim l) p = head (ndim l) q \<Longrightarrow>
   translate_coordinates E l p = translate_coordinates E l q"
  by (simp add: translate_coordinates_def)

lemma length_coefficients: "length (coefficients v) = 3"
  by (cases v) simp

lemma translate_coordinates_beyond:
  "drop (ndim l) (coefficients (translate_coordinates E l p)) = replicate (3 - ndim l) 0"
proof -
  consider "ndim l = 0" | "ndim l = 1" | "ndim l = 2" | "3 \<le> ndim l" by linarith
  then show ?thesis
    by cases (simp_all add: translate_coordinates_def Let_def length_coefficients
        numeral_3_eq_3 numeral_2_eq_2)
qed

section \<open>What a failing add_hopping leaves behind\<close>

lemma add_hopping_thrown_frame:
  "is_thrown (fst (add_hopping E d from_sub to_sub name l)) \<Longrightarrow>
   snd (add_hopping E d from_sub to_sub name l) = l"
  by (auto simp: add_hopping_def Let_def split: outcome.splits if_splits)

lemma register_hopping_energy_cases:
  "(\<exists>e. register_hopping_energy E name energy l = (Thrown e, l))
   \<or> (map_of (hoppings l) name = None
      \<and> register_hopping_energy E name energy l
        = (Returned (),
           l\<lparr>hoppings := hoppings l @
               [(name, \<lparr>fam_energy = energy, fam_unique_id = length (hoppings l),
                        fam_terms = []\<rparr>)]\<rparr>))"
  by (simp add: register_hopping_energy_def insert_entry_def)

lemma hopping_name_for_cases:
  "(\<exists>name. hopping_name_for E energy l = (Returned name, l))
   \<or> (\<exists>e. hopping_name_for E energy l = (Thrown e, l))
   \<or> (find (\<lambda>r. fam_energy (snd r) = energy) (hoppings l) = None
      \<and> hopping_name_for E energy l
        = (Returned (''__anonymous__'' @ to_string (length (hoppings l))),
           l\<lparr>hoppings := hoppings l @
               [(''__anonymous__'' @ to_string (length (hoppings l)),
                 \<lparr>fam_energy = energy, fam_unique_id = length (hoppings l),
                  fam_terms = []\<rparr>)]\<rparr>))"
proof (cases "find (\<lambda>r. fam_energy (snd r) = energy) (hoppings l)")
  case (Some it)
  then show ?thesis by (simp add: hopping_name_for_def)
next
  case None
  show ?thesis
    using register_hopping_energy_cases
      [of E "''__anonymous__'' @ to_string (length (hoppings l))" energy l] None
    by (auto simp: hopping_name_for_def Let_def)
qed

lemma add_hopping_energy_thrown_frame:
  assumes "is_thrown (fst (add_hopping_energy E d from_sub to_sub energy l))"
  shows "snd (add_hopping_energy E d from_sub to_sub energy l) = l
     \<or> (find (\<lambda>r. fam_energy (snd r) = energy) (hoppings l) = None
        \<and> snd (add_hopping_energy E d from_sub to_sub energy l)
          = l\<lparr>hoppings := hoppings l @
               [(''__anonymous__'' @ to_string (length (hoppings l)),
                 \<lparr>fam_energy = energy, fam_unique_id = length (hoppings l),
                  fam_terms = []\<rparr>)]\<rparr>)"
proof -
  consider (found) name where "hopping_name_for E energy l = (Returned name, l)"
    | (failed) e where "hopping_name_for E energy l = (Thrown e, l)"
    | (fresh) "find (\<lambda>r. fam_energy (snd r) = energy) (hoppings l) = None"
      "hopping_name_for E energy l
        = (Returned (''__anonymous__'' @ to_string (length (hoppings l))),
           l\<lparr>hoppings := hoppings l @
               [(''__anonymous__'' @ to_string (length (hoppings l)),
                 \<lparr>fam_energy = energy, fam_unique_id = length (hoppings l),
                  fam_terms = []\<rparr>)]\<rparr>)"
    using hopping_name_for_cases [of E energy l] by (elim disjE exE conjE) auto
  then show ?thesis
  proof cases
    case found
    then show ?thesis
      using assms add_hopping_thrown_frame [of E d from_sub to_sub name l]
      by (simp add: add_hopping_energy_def)
  next
    case failed
    then show ?thesis by (simp add: add_hopping_energy_def)
  next
    case fresh
    then show ?thesis
      using assms add_hopping_thrown_frame [of E d from_sub to_sub
          "''__anonymous__'' @ to_string (length (hoppings l))"]
      by (simp add: add_hopping_energy_def)
  qed
qed

text \<open>
  Claim C1, as the code has it.  A failing call of the named \<^verbatim>\<open>add_hopping\<close> overload
  leaves the lattice unchanged.  A failing call of an energy overload leaves the sublattice
  registry unchanged, and the hopping registry either unchanged or, when no family had the
  given energy, extended at the end by one family: the anonymous family named after the
  old size, with the given energy, the old size as identifier and no term.
\<close>

theorem add_hopping_failure_frame:
  "(is_thrown (fst (add_hopping E d from_sub to_sub name l)) \<longrightarrow>
      snd (add_hopping E d from_sub to_sub name l) = l)
   \<and> (is_thrown (fst (add_hopping_energy E d from_sub to_sub energy l)) \<longrightarrow>
      sublattices (snd (add_hopping_energy E d from_sub to_sub energy l)) = sublattices l
      \<and> (hoppings (snd (add_hopping_energy E d from_sub to_sub energy l)) = hoppings l
         \<or> (find (\<lambda>r. fam_energy (snd r) = energy) (hoppings l) = None
            \<and> hoppings (snd (add_hopping_energy E d from_sub to_sub energy l))
              = hoppings l @
                 [(''__anonymous__'' @ to_string (length (hoppings l)),
                   \<lparr>fam_energy = energy, fam_unique_id = length (hoppings l),
                    fam_terms = []\<rparr>)])))
   \<and> (is_thrown (fst (add_hopping_scalar E d from_sub to_sub e l)) \<longrightarrow>
      sublattices (snd (add_hopping_scalar E d from_sub to_sub e l)) = sublattices l
      \<and> (hoppings (snd (add_hopping_scalar E d from_sub to_sub e l)) = hoppings l
         \<or> (find (\<lambda>r. fam_energy (snd r) = Constant_1x1 e) (hoppings l) = None
            \<and> hoppings (snd (add_hopping_scalar E d from_sub to_sub e l))
              = hoppings l @
                 [(''__anonymous__'' @ to_string (length (hoppings l)),
                   \<lparr>fam_energy = Constant_1x1 e, fam_unique_id = length (hoppings l),
                    fam_terms = []\<rparr>)])))"
proof (intro conjI impI)
  assume "is_thrown (fst (add_hopping E d from_sub to_sub name l))"
  then show "snd (add_hopping E d from_sub to_sub name l) = l"
    by (rule add_hopping_thrown_frame)
next
  assume a: "is_thrown (fst (add_hopping_energy E d from_sub to_sub energy l))"
  from add_hopping_energy_thrown_frame [OF a]
  show "sublattices (snd (add_hopping_energy E d from_sub to_sub energy l)) = sublattices l"
    by auto
  from add_hopping_energy_thrown_frame [OF a]
  show "hoppings (snd (add_hopping_energy E d from_sub to_sub energy l)) = hoppings l
         \<or> (find (\<lambda>r. fam_energy (snd r) = energy) (hoppings l) = None
            \<and> hoppings (snd (add_hopping_energy E d from_sub to_sub energy l))
              = hoppings l @
                 [(''__anonymous__'' @ to_string (length (hoppings l)),
                   \<lparr>fam_energy = energy, fam_unique_id = length (hoppings l),
                    fam_terms = []\<rparr>)])"
    by auto
next
  assume "is_thrown (fst (add_hopping_scalar E d from_sub to_sub e l))"
  then have a: "is_thrown (fst (add_hopping_energy E d from_sub to_sub (Constant_1x1 e) l))"
    by (simp add: add_hopping_scalar_def)
  from add_hopping_energy_thrown_frame [OF a]
  show "sublattices (snd (add_hopping_scalar E d from_sub to_sub e l)) = sublattices l"
    by (auto simp: add_hopping_scalar_def)
  from add_hopping_energy_thrown_frame [OF a]
  show "hoppings (snd (add_hopping_scalar E d from_sub to_sub e l)) = hoppings l
         \<or> (find (\<lambda>r. fam_energy (snd r) = Constant_1x1 e) (hoppings l) = None
            \<and> hoppings (snd (add_hopping_scalar E d from_sub to_sub e l))
              = hoppings l @
                 [(''__anonymous__'' @ to_string (length (hoppings l)),
                   \<lparr>fam_energy = Constant_1x1 e, fam_unique_id = length (hoppings l),
                    fam_terms = []\<rparr>)])"
    by (auto simp: add_hopping_scalar_def)
qed

lemmas eval_ops = add_sublattice_def register_sublattice_def add_alias_def sublattice_def
  hopping_family_def register_hopping_energy_def insert_entry_def add_hopping_def
  collides_def hopping_name_for_def add_hopping_energy_def add_hopping_scalar_def
  Constant_1x1_def Let_def

lemma scenario_lattice_value:
  "scenario_lattice =
     \<lparr>vectors = [(1, 0, 0), (0, 1, 0)],
      sublattices = [(''A'', \<lparr>sub_position = (0, 0, 0), sub_energy = [[0]],
                             sub_unique_id = 0, sub_alias_id = 0\<rparr>)],
      hoppings = [(''t'', \<lparr>fam_energy = [[- 1]], fam_unique_id = 0,
                          fam_terms = [\<lparr>term_relative_index = (1, 0, 0),
                                        term_from = 0, term_to = 0\<rparr>]\<rparr>)],
      offset = (0, 0, 0), min_neighbors = 1\<rparr>"
  by (simp add: scenario_lattice_def scenario_calls_def eval_ops eval_defs upt_rec)

text \<open>
  On the scenario lattice, a hopping of energy 2 to the unknown sublattice \<open>B\<close> fails, and
  the family \<open>__anonymous__1\<close> stays registered.
\<close>

theorem add_hopping_failure_frame_counterexample:
  "fst (add_hopping_energy example_env (0, 1, 0) ''A'' ''B'' [[2]] scenario_lattice)
     = Thrown (NoSublatticeNamed ''B'')
   \<and> hoppings (snd (add_hopping_energy example_env (0, 1, 0) ''A'' ''B'' [[2]] scenario_lattice))
     = hoppings scenario_lattice @
         [(''__anonymous__1'', \<lparr>fam_energy = [[2]], fam_unique_id = 1, fam_terms = []\<rparr>)]
   \<and> hoppings (snd (add_hopping_energy example_env (0, 1, 0) ''A'' ''B'' [[2]] scenario_lattice))
     \<noteq> hoppings scenario_lattice"
  by (simp add: scenario_lattice_value eval_ops example_env_def to_string.simps)


theorem add_hopping_failure_frame_witness:
  "is_thrown (fst (add_hopping example_env (0, 1, 0) ''A'' ''B'' ''t'' scenario_lattice))
   \<and> snd (add_hopping example_env (0, 1, 0) ''A'' ''B'' ''t'' scenario_lattice) = scenario_lattice
   \<and> is_thrown (fst (add_hopping_energy example_env (0, 1, 0) ''A'' ''B'' [[- 1]]
        scenario_lattice))
   \<and> sublattices (snd (add_hopping_energy example_env (0, 1, 0) ''A'' ''B'' [[- 1]]
        scenario_lattice)) = sublattices scenario_lattice
   \<and> is_thrown (fst (add_hopping_scalar example_env (0, 1, 0) ''A'' ''B'' 2 scenario_lattice))
   \<and> sublattices (snd (add_hopping_scalar example_env (0, 1, 0) ''A'' ''B'' 2
        scenario_lattice)) = sublattices scenario_lattice"
proof -
  have a: "is_thrown (fst (add_hopping example_env (0, 1, 0) ''A'' ''B'' ''t'' scenario_lattice))"
    by (simp add: scenario_lattice_value eval_ops)
  have b: "is_thrown (fst (add_hopping_energy example_env (0, 1, 0) ''A'' ''B'' [[- 1]]
        scenario_lattice))"
    by (simp add: scenario_lattice_value eval_ops)
  have c: "is_thrown (fst (add_hopping_scalar example_env (0, 1, 0) ''A'' ''B'' 2
        scenario_lattice))"
    by (simp add: scenario_lattice_value eval_ops example_env_def to_string.simps)
  show ?thesis
    using a b c
      add_hopping_failure_frame [of example_env "(0, 1, 0)" "''A''" "''B''" "''t''"
        scenario_lattice "[[- 1]]" 2]
    by blast
qed

section \<open>Built lattices are well formed\<close>

lemma add_sublattice_cases:
  "(\<exists>e. add_sublattice E name position energy l = (Thrown e, l))
   \<or> (map_of (sublattices l) name = None
      \<and> add_sublattice E name position energy l
        = (Returned (),
           l\<lparr>sublattices := sublattices l @
               [(name, \<lparr>sub_position = position, sub_energy = energy,
                        sub_unique_id = length (sublattices l),
                        sub_alias_id = length (sublattices l)\<rparr>)]\<rparr>))"
  by (auto simp: add_sublattice_def register_sublattice_def update_fresh)

lemma add_alias_cases:
  "(\<exists>e. add_alias E alias_name original_name position l = (Thrown e, l))
   \<or> (\<exists>original. map_of (sublattices l) original_name = Some original
      \<and> map_of (sublattices l) alias_name = None
      \<and> add_alias E alias_name original_name position l
        = (Returned (),
           l\<lparr>sublattices := sublattices l @
               [(alias_name, \<lparr>sub_position = position, sub_energy = sub_energy original,
                        sub_unique_id = length (sublattices l),
                        sub_alias_id = sub_unique_id original\<rparr>)]\<rparr>))"
  by (auto simp: add_alias_def sublattice_def register_sublattice_def update_fresh Let_def
      split: option.splits)

lemma add_hopping_cases:
  "(\<exists>e. add_hopping E d from_sub to_sub name l = (Thrown e, l))
   \<or> (\<exists>from to. map_of (sublattices l) from_sub = Some from
      \<and> map_of (sublattices l) to_sub = Some to
      \<and> \<not> (from_sub = to_sub \<and> d = Index3D_Zero)
      \<and> add_hopping E d from_sub to_sub name l
        = (Returned (),
           l\<lparr>hoppings := AList.map_entry name
                (\<lambda>f. f\<lparr>fam_terms := fam_terms f @
                   [\<lparr>term_relative_index = d, term_from = sub_unique_id from,
                     term_to = sub_unique_id to\<rparr>]\<rparr>)
                (hoppings l)\<rparr>))"
  by (auto simp: add_hopping_def sublattice_def hopping_family_def Let_def
      split: option.splits)

lemma set_offset_cases:
  "set_offset E position l = (Thrown OffsetTooLarge, l)
   \<or> set_offset E position l = (Returned (), l\<lparr>offset := position\<rparr>)"
  by (simp add: set_offset_def)

lemma unique_id_of_entry:
  assumes "map (\<lambda>p. sub_unique_id (snd p)) xs = [0..<length xs]"
    and "i < length xs"
  shows "sub_unique_id (snd (xs ! i)) = i"
proof -
  have "map (\<lambda>p. sub_unique_id (snd p)) xs ! i = [0..<length xs] ! i"
    using assms(1) by simp
  then show ?thesis using assms(2) by simp
qed

lemma unique_id_in_range:
  assumes "map (\<lambda>p. sub_unique_id (snd p)) xs = [0..<length xs]"
    and "map_of xs a = Some sa"
  shows "sub_unique_id sa < length xs"
proof -
  from assms(2) have "(a, sa) \<in> set xs" by (rule map_of_SomeD)
  then obtain i where i: "i < length xs" "xs ! i = (a, sa)"
    by (auto simp: in_set_conv_nth)
  then have "sub_unique_id sa = i"
    using unique_id_of_entry [OF assms(1), of i] by simp
  then show ?thesis using i by simp
qed

lemma unique_id_inj:
  assumes "map (\<lambda>p. sub_unique_id (snd p)) xs = [0..<length xs]"
    and "map_of xs a = Some sa" and "map_of xs b = Some sb"
    and "sub_unique_id sa = sub_unique_id sb"
  shows "a = b"
proof -
  from assms(2) have "(a, sa) \<in> set xs" by (rule map_of_SomeD)
  then obtain i where i: "i < length xs" "xs ! i = (a, sa)"
    by (auto simp: in_set_conv_nth)
  from assms(3) have "(b, sb) \<in> set xs" by (rule map_of_SomeD)
  then obtain j where j: "j < length xs" "xs ! j = (b, sb)"
    by (auto simp: in_set_conv_nth)
  have "sub_unique_id sa = i"
    using unique_id_of_entry [OF assms(1), of i] i by simp
  moreover have "sub_unique_id sb = j"
    using unique_id_of_entry [OF assms(1), of j] j by simp
  ultimately have "i = j" using assms(4) by simp
  then show ?thesis using i j by simp
qed

lemma well_formed_ctor: "well_formed (Lattice_ctor a1 a2 a3)"
  by (simp add: well_formed_def Lattice_ctor_def)

lemma well_formed_append_sublattice:
  assumes "well_formed l" and "sub_unique_id s = length (sublattices l)"
  shows "well_formed (l\<lparr>sublattices := sublattices l @ [(name, s)]\<rparr>)"
  using assms
  by (auto simp: well_formed_def list_all_iff less_Suc_eq)

lemma well_formed_append_family:
  assumes "well_formed l" and "fam_terms f = []"
  shows "well_formed (l\<lparr>hoppings := hoppings l @ [(name, f)]\<rparr>)"
  using assms by (simp add: well_formed_def)

lemma set_map_entry_terms:
  assumes "r \<in> set (AList.map_entry name (\<lambda>f. f\<lparr>fam_terms := fam_terms f @ [t]\<rparr>) hs)"
    and "u \<in> set (fam_terms (snd r))"
  shows "u = t \<or> (\<exists>r' \<in> set hs. u \<in> set (fam_terms (snd r')))"
  using assms
  by (induction hs) (auto split: if_splits)

lemma well_formed_push_term:
  assumes "well_formed l"
    and "term_from t < length (sublattices l)" and "term_to t < length (sublattices l)"
    and "\<not> (term_from t = term_to t \<and> term_relative_index t = Index3D_Zero)"
  shows "well_formed (l\<lparr>hoppings := AList.map_entry name
            (\<lambda>f. f\<lparr>fam_terms := fam_terms f @ [t]\<rparr>) (hoppings l)\<rparr>)"
proof -
  have "term_from u < length (sublattices l) \<and> term_to u < length (sublattices l)
      \<and> \<not> (term_from u = term_to u \<and> term_relative_index u = Index3D_Zero)"
    if "r \<in> set (AList.map_entry name (\<lambda>f. f\<lparr>fam_terms := fam_terms f @ [t]\<rparr>) (hoppings l))"
      and "u \<in> set (fam_terms (snd r))" for r u
    using set_map_entry_terms [OF that] assms
    by (auto simp: well_formed_def list_all_iff)
  then show ?thesis
    using assms(1) by (auto simp: well_formed_def list_all_iff)
qed

lemma well_formed_add_hopping:
  assumes "well_formed l"
  shows "well_formed (snd (add_hopping E d from_sub to_sub name l))"
proof -
  consider (thrown) e where "add_hopping E d from_sub to_sub name l = (Thrown e, l)"
    | (returned) "from" to where "map_of (sublattices l) from_sub = Some from"
        "map_of (sublattices l) to_sub = Some to"
        "\<not> (from_sub = to_sub \<and> d = Index3D_Zero)"
        "add_hopping E d from_sub to_sub name l
          = (Returned (),
             l\<lparr>hoppings := AList.map_entry name
                (\<lambda>f. f\<lparr>fam_terms := fam_terms f @
                   [\<lparr>term_relative_index = d, term_from = sub_unique_id from,
                     term_to = sub_unique_id to\<rparr>]\<rparr>)
                (hoppings l)\<rparr>)"
    using add_hopping_cases [of E d from_sub to_sub name l] by (elim disjE exE conjE) auto
  then show ?thesis
  proof cases
    case thrown
    then show ?thesis using assms by simp
  next
    case returned
    have ids: "map (\<lambda>p. sub_unique_id (snd p)) (sublattices l) = [0..<length (sublattices l)]"
      using assms by (simp add: well_formed_def)
    have "sub_unique_id from < length (sublattices l)"
      using unique_id_in_range [OF ids returned(1)] .
    moreover have "sub_unique_id to < length (sublattices l)"
      using unique_id_in_range [OF ids returned(2)] .
    moreover have "\<not> (sub_unique_id from = sub_unique_id to \<and> d = Index3D_Zero)"
      using unique_id_inj [OF ids returned(1) returned(2)] returned(3) by blast
    ultimately show ?thesis
      using well_formed_push_term [OF assms,
          of "\<lparr>term_relative_index = d, term_from = sub_unique_id from,
               term_to = sub_unique_id to\<rparr>" name] returned(4)
      by simp
  qed
qed

lemma well_formed_hopping_name_for:
  assumes "well_formed l"
  shows "well_formed (snd (hopping_name_for E energy l))"
  using hopping_name_for_cases [of E energy l] assms
    well_formed_append_family [OF assms,
      of "\<lparr>fam_energy = energy, fam_unique_id = length (hoppings l), fam_terms = []\<rparr>"
         "''__anonymous__'' @ to_string (length (hoppings l))"]
  by (elim disjE exE conjE) auto

lemma well_formed_exec:
  assumes "well_formed l"
  shows "well_formed (snd (exec E c l))"
proof (cases c)
  case (AddSublattice name position energy)
  show ?thesis
    using add_sublattice_cases [of E name position energy l] assms
      well_formed_append_sublattice [OF assms,
        of "\<lparr>sub_position = position, sub_energy = energy,
             sub_unique_id = length (sublattices l),
             sub_alias_id = length (sublattices l)\<rparr>" name]
    by (auto simp: AddSublattice)
next
  case (AddAlias alias_name original_name position)
  show ?thesis
    using add_alias_cases [of E alias_name original_name position l] assms
      well_formed_append_sublattice [OF assms, of _ alias_name]
    by (auto simp: AddAlias)
next
  case (RegisterHoppingEnergy name energy)
  show ?thesis
    using register_hopping_energy_cases [of E name energy l] assms
      well_formed_append_family [OF assms,
        of "\<lparr>fam_energy = energy, fam_unique_id = length (hoppings l), fam_terms = []\<rparr>" name]
    by (auto simp: RegisterHoppingEnergy)
next
  case (AddHopping d from_sub to_sub name)
  then show ?thesis
    using well_formed_add_hopping [OF assms] by simp
next
  case (AddHoppingEnergy d from_sub to_sub energy)
  have "well_formed (snd (add_hopping_energy E d from_sub to_sub energy l))"
  proof (cases "hopping_name_for E energy l")
    case (Pair r l')
    then have wf: "well_formed l'"
      using well_formed_hopping_name_for [OF assms, of E energy] by simp
    show ?thesis
    proof (cases r)
      case (Returned hopping_name)
      then show ?thesis
        using Pair well_formed_add_hopping [OF wf]
        by (simp add: add_hopping_energy_def)
    next
      case (Thrown e)
      then show ?thesis
        using Pair wf by (simp add: add_hopping_energy_def)
    qed
  qed
  then show ?thesis by (simp add: AddHoppingEnergy)
next
  case (SetOffset position)
  show ?thesis
    using set_offset_cases [of E position l] assms
    by (auto simp: SetOffset well_formed_def)
next
  case (WithMinNeighbors number)
  show ?thesis
    using assms by (simp add: WithMinNeighbors well_formed_def)
qed

lemma well_formed_build:
  "well_formed l \<Longrightarrow> well_formed (build E cs l)"
  by (induction cs arbitrary: l) (simp_all add: well_formed_exec)

section \<open>The compiled structure\<close>

lemma entries_update:
  "i < length hs \<Longrightarrow>
   mset (concat (map (\<lambda>p. map (Pair (fst p)) (snd p)) (enumerate k (hs[i := hs ! i @ [h]]))))
   = add_mset (k + i, h)
       (mset (concat (map (\<lambda>p. map (Pair (fst p)) (snd p)) (enumerate k hs))))"
proof (induction hs arbitrary: i k)
  case Nil
  then show ?case by simp
next
  case (Cons a hs)
  show ?case
  proof (cases i)
    case 0
    then show ?thesis by simp
  next
    case (Suc j)
    then have "j < length hs" using Cons.prems by simp
    from Cons.IH [OF this, of "Suc k"] show ?thesis
      by (simp add: Suc)
  qed
qed

lemma modify_push_back:
  assumes "i < length os"
  shows "\<exists>os'. modify i (push_back h) os = Some os' \<and> length os' = length os
     \<and> mset (compiled_entries os') = add_mset (i, h) (mset (compiled_entries os))"
proof -
  have "map site_hoppings (os[i := push_back h (os ! i)])
      = (map site_hoppings os)[i := map site_hoppings os ! i @ [h]]"
    using assms by (simp add: map_update push_back_def)
  then have "mset (compiled_entries (os[i := push_back h (os ! i)]))
      = add_mset (i, h) (mset (compiled_entries os))"
    using entries_update [of i "map site_hoppings os" 0 h] assms
    by (simp add: compiled_entries_def)
  then show ?thesis using assms by (simp add: modify_def)
qed

lemma push_terms_entries:
  assumes "list_all (\<lambda>t. term_from t < length os \<and> term_to t < length os) ts"
  shows "\<exists>os'. push_terms family_id ts os = Some os' \<and> length os' = length os
     \<and> mset (compiled_entries os')
       = mset (compiled_entries os) + mset (concat (map (term_entries family_id) ts))"
  using assms
proof (induction ts arbitrary: os)
  case Nil
  then show ?case by simp
next
  case (Cons t ts)
  from Cons.prems have f: "term_from t < length os" and g: "term_to t < length os"
    by simp_all
  from modify_push_back [OF f, of "forward_hopping family_id t"]
  obtain os1 where os1: "modify (term_from t) (push_back (forward_hopping family_id t)) os
      = Some os1" "length os1 = length os"
    "mset (compiled_entries os1)
      = add_mset (term_from t, forward_hopping family_id t) (mset (compiled_entries os))"
    by blast
  from g os1(2) have "term_to t < length os1" by simp
  from modify_push_back [OF this, of "conjugate_hopping family_id t"]
  obtain os2 where os2: "modify (term_to t) (push_back (conjugate_hopping family_id t)) os1
      = Some os2" "length os2 = length os1"
    "mset (compiled_entries os2)
      = add_mset (term_to t, conjugate_hopping family_id t) (mset (compiled_entries os1))"
    by blast
  have "list_all (\<lambda>t. term_from t < length os2 \<and> term_to t < length os2) ts"
    using Cons.prems os1(2) os2(2) by simp
  from Cons.IH [OF this]
  obtain os' where os': "push_terms family_id ts os2 = Some os'" "length os' = length os2"
    "mset (compiled_entries os')
      = mset (compiled_entries os2) + mset (concat (map (term_entries family_id) ts))"
    by blast
  have te: "term_entries family_id t
      = [(term_from t, forward_hopping family_id t), (term_to t, conjugate_hopping family_id t)]"
    by (simp add: term_entries_def forward_hopping_def conjugate_hopping_def)
  show ?case
    using os1 os2 os' by (simp add: te)
qed

lemma push_families_entries:
  assumes "list_all (\<lambda>r. list_all (\<lambda>t. term_from t < length os \<and> term_to t < length os)
      (fam_terms (snd r))) hs"
  shows "\<exists>os'. push_families hs os = Some os' \<and> length os' = length os
     \<and> mset (compiled_entries os')
       = mset (compiled_entries os)
         + mset (concat (map (\<lambda>r. concat (map (term_entries (fam_unique_id (snd r)))
              (fam_terms (snd r)))) hs))"
  using assms
proof (induction hs arbitrary: os)
  case Nil
  then show ?case by simp
next
  case (Cons r hs)
  from Cons.prems
  have "list_all (\<lambda>t. term_from t < length os \<and> term_to t < length os) (fam_terms (snd r))"
    by simp
  from push_terms_entries [OF this, of "fam_unique_id (snd r)"]
  obtain os1 where os1: "push_terms (fam_unique_id (snd r)) (fam_terms (snd r)) os = Some os1"
    "length os1 = length os"
    "mset (compiled_entries os1)
      = mset (compiled_entries os)
        + mset (concat (map (term_entries (fam_unique_id (snd r))) (fam_terms (snd r))))"
    by blast
  have "list_all (\<lambda>r. list_all (\<lambda>t. term_from t < length os1 \<and> term_to t < length os1)
      (fam_terms (snd r))) hs"
    using Cons.prems os1(2) by simp
  from Cons.IH [OF this]
  obtain os' where os': "push_families hs os1 = Some os'" "length os' = length os1"
    "mset (compiled_entries os')
      = mset (compiled_entries os1)
        + mset (concat (map (\<lambda>r. concat (map (term_entries (fam_unique_id (snd r)))
              (fam_terms (snd r)))) hs))"
    by blast
  show ?case
    using os1 os' by simp
qed

lemma write_sites_hoppings:
  assumes "list_all (\<lambda>p. sub_unique_id (snd p) < length os) ps"
  shows "\<exists>os'. write_sites ps os = Some os' \<and> length os' = length os
     \<and> map site_hoppings os' = map site_hoppings os"
  using assms
proof (induction ps arbitrary: os)
  case Nil
  then show ?case by simp
next
  case (Cons p ps)
  let ?os1 = "os[sub_unique_id (snd p) :=
      (os ! sub_unique_id (snd p))\<lparr>site_position := sub_position (snd p),
                                    site_alias := sub_alias_id (snd p)\<rparr>]"
  have m: "map site_hoppings ?os1 = map site_hoppings os"
    using Cons.prems by (simp add: map_update list_update_same_conv)
  have "list_all (\<lambda>p. sub_unique_id (snd p) < length ?os1) ps"
    using Cons.prems by simp
  from Cons.IH [OF this]
  obtain os' where "write_sites ps ?os1 = Some os'" "length os' = length ?os1"
    "map site_hoppings os' = map site_hoppings ?os1"
    by blast
  then show ?case
    using Cons.prems m by (simp add: modify_def)
qed

lemma entries_replicate_empty:
  "concat (map (\<lambda>p. map (Pair (fst p)) (snd p)) (enumerate k (replicate n []))) = []"
proof (induction n arbitrary: k)
  case 0
  show ?case by simp
next
  case (Suc n)
  from Suc [of "Suc k"] show ?case by simp
qed

lemma site_hoppings_fresh: "map site_hoppings (replicate n Site_fresh) = replicate n []"
  by (simp add: Site_fresh_def)

lemma compiled_entries_fresh: "compiled_entries (replicate n Site_fresh) = []"
  unfolding compiled_entries_def site_hoppings_fresh by (rule entries_replicate_empty)

lemma in_entries:
  "(i, h) \<in> set (concat (map (\<lambda>p. map (Pair (fst p)) (snd p)) (enumerate k hs)))
   \<longleftrightarrow> k \<le> i \<and> i < k + length hs \<and> h \<in> set (hs ! (i - k))"
proof (induction hs arbitrary: k)
  case Nil
  show ?case by simp
next
  case (Cons a hs)
  show ?case
  proof (cases "i = k")
    case True
    then show ?thesis using Cons.IH [of "Suc k"] by auto
  next
    case False
    have "(i, h) \<in> set (concat (map (\<lambda>p. map (Pair (fst p)) (snd p)) (enumerate k (a # hs))))
        \<longleftrightarrow> (i, h) \<in> set (concat (map (\<lambda>p. map (Pair (fst p)) (snd p))
              (enumerate (Suc k) hs)))"
      using False by auto
    also have "\<dots> \<longleftrightarrow> Suc k \<le> i \<and> i < Suc k + length hs \<and> h \<in> set (hs ! (i - Suc k))"
      by (rule Cons.IH)
    also have "\<dots> \<longleftrightarrow> k \<le> i \<and> i < k + length (a # hs) \<and> h \<in> set ((a # hs) ! (i - k))"
      using False by (auto simp: nth_Cons')
    finally show ?thesis .
  qed
qed

lemma in_compiled_entries:
  "(i, h) \<in> set (compiled_entries os) \<longleftrightarrow> i < length os \<and> h \<in> set (site_hoppings (os ! i))"
  unfolding compiled_entries_def in_entries by auto

lemma optimized_structure_entries:
  assumes "well_formed l"
  shows "\<exists>os. optimized_structure l = Some os \<and> length os = nsub l
     \<and> mset (compiled_entries os) = mset (registry_entries l)"
proof -
  let ?n = "length (sublattices l)"
  have ids: "map (\<lambda>p. sub_unique_id (snd p)) (sublattices l) = [0..<?n]"
    using assms by (simp add: well_formed_def)
  have "list_all (\<lambda>p. sub_unique_id (snd p) < ?n) (sublattices l)"
  proof -
    have "\<forall>x \<in> set (map (\<lambda>p. sub_unique_id (snd p)) (sublattices l)). x < ?n"
      unfolding ids by simp
    then show ?thesis by (simp add: list_all_iff)
  qed
  then have "list_all (\<lambda>p. sub_unique_id (snd p) < length (replicate ?n Site_fresh))
      (sublattices l)"
    by simp
  from write_sites_hoppings [OF this]
  obtain os1 where os1: "write_sites (sublattices l) (replicate ?n Site_fresh) = Some os1"
    "length os1 = ?n"
    "map site_hoppings os1 = map site_hoppings (replicate ?n Site_fresh)"
    by auto
  have e1: "compiled_entries os1 = []"
    using os1(3) compiled_entries_fresh [of ?n] by (simp add: compiled_entries_def)
  have "list_all (\<lambda>r. list_all (\<lambda>t. term_from t < length os1 \<and> term_to t < length os1)
      (fam_terms (snd r))) (hoppings l)"
    using assms os1(2) by (auto simp: well_formed_def list_all_iff)
  from push_families_entries [OF this]
  obtain os where "push_families (hoppings l) os1 = Some os" "length os = length os1"
    "mset (compiled_entries os)
      = mset (compiled_entries os1)
        + mset (concat (map (\<lambda>r. concat (map (term_entries (fam_unique_id (snd r)))
              (fam_terms (snd r)))) (hoppings l)))"
    by blast
  then show ?thesis
    using os1 e1 by (simp add: optimized_structure_def nsub_def registry_entries_def)
qed

text \<open>
  Claim C2.  For a lattice built by the constructor and any sequence of calls,
  \<^verbatim>\<open>optimized_structure\<close> returns an array with one site per sublattice, and the compiled
  hoppings in it, each with the index of its site and counted with multiplicity, are
  exactly these: for every term \<open>(d, A, B)\<close> of every family \<open>F\<close>, the hopping
  \<open>(d, B, F, False)\<close> at site \<open>A\<close> and the hopping \<open>(-d, A, F, True)\<close> at site \<open>B\<close>.
\<close>

theorem optimized_structure_two_entries_per_term:
  "\<exists>os. optimized_structure (build E cs (Lattice_ctor a1 a2 a3)) = Some os
     \<and> length os = nsub (build E cs (Lattice_ctor a1 a2 a3))
     \<and> mset (compiled_entries os) = mset (registry_entries (build E cs (Lattice_ctor a1 a2 a3)))
     \<and> (\<forall>r \<in> set (hoppings (build E cs (Lattice_ctor a1 a2 a3))).
          \<forall>t \<in> set (fam_terms (snd r)).
            \<lparr>hop_relative_index = term_relative_index t, hop_to = term_to t,
             hop_id = fam_unique_id (snd r), hop_is_conjugate = False\<rparr>
              \<in> set (site_hoppings (os ! term_from t))
            \<and> \<lparr>hop_relative_index = neg_index (term_relative_index t), hop_to = term_from t,
               hop_id = fam_unique_id (snd r), hop_is_conjugate = True\<rparr>
              \<in> set (site_hoppings (os ! term_to t)))"
proof -
  let ?l = "build E cs (Lattice_ctor a1 a2 a3)"
  have "well_formed ?l"
    by (intro well_formed_build well_formed_ctor)
  from optimized_structure_entries [OF this]
  obtain os where os: "optimized_structure ?l = Some os" "length os = nsub ?l"
    "mset (compiled_entries os) = mset (registry_entries ?l)"
    by blast
  have both: "\<lparr>hop_relative_index = term_relative_index t, hop_to = term_to t,
             hop_id = fam_unique_id (snd r), hop_is_conjugate = False\<rparr>
              \<in> set (site_hoppings (os ! term_from t))
            \<and> \<lparr>hop_relative_index = neg_index (term_relative_index t), hop_to = term_from t,
               hop_id = fam_unique_id (snd r), hop_is_conjugate = True\<rparr>
              \<in> set (site_hoppings (os ! term_to t))"
    if "r \<in> set (hoppings ?l)" and "t \<in> set (fam_terms (snd r))" for r t
  proof -
    have "set (term_entries (fam_unique_id (snd r)) t) \<subseteq> set (registry_entries ?l)"
      using that by (auto simp: registry_entries_def)
    moreover have "set (registry_entries ?l) = set (compiled_entries os)"
      using os(3) [symmetric] by (rule mset_eq_setD)
    ultimately have "set (term_entries (fam_unique_id (snd r)) t) \<subseteq> set (compiled_entries os)"
      by simp
    then show ?thesis
      by (simp add: term_entries_def in_compiled_entries)
  qed
  show ?thesis
  proof (intro exI conjI ballI)
    show "optimized_structure ?l = Some os" by (rule os(1))
    show "length os = nsub ?l" by (rule os(2))
    show "mset (compiled_entries os) = mset (registry_entries ?l)" by (rule os(3))
  next
    fix r t
    assume "r \<in> set (hoppings ?l)" and "t \<in> set (fam_terms (snd r))"
    then show "\<lparr>hop_relative_index = term_relative_index t, hop_to = term_to t,
             hop_id = fam_unique_id (snd r), hop_is_conjugate = False\<rparr>
              \<in> set (site_hoppings (os ! term_from t))"
      and "\<lparr>hop_relative_index = neg_index (term_relative_index t), hop_to = term_from t,
               hop_id = fam_unique_id (snd r), hop_is_conjugate = True\<rparr>
              \<in> set (site_hoppings (os ! term_to t))"
      using both by blast+
  qed
qed

lemmas eval_structure = optimized_structure_def nsub_def modify_def Site_fresh_def
  forward_hopping_def conjugate_hopping_def push_back_def

lemma scenario_structure:
  "optimized_structure scenario_lattice =
     Some [\<lparr>site_position = (0, 0, 0), site_alias = 0,
            site_hoppings =
              [\<lparr>hop_relative_index = (1, 0, 0), hop_to = 0, hop_id = 0,
                 hop_is_conjugate = False\<rparr>,
               \<lparr>hop_relative_index = (- 1, 0, 0), hop_to = 0, hop_id = 0,
                 hop_is_conjugate = True\<rparr>]\<rparr>]"
  by (simp add: scenario_lattice_value eval_structure)

theorem optimized_structure_two_entries_per_term_witness:
  "optimized_structure scenario_lattice =
     Some [\<lparr>site_position = (0, 0, 0), site_alias = 0,
            site_hoppings =
              [\<lparr>hop_relative_index = (1, 0, 0), hop_to = 0, hop_id = 0,
                 hop_is_conjugate = False\<rparr>,
               \<lparr>hop_relative_index = (- 1, 0, 0), hop_to = 0, hop_id = 0,
                 hop_is_conjugate = True\<rparr>]\<rparr>]
   \<and> nsub scenario_lattice = 1
   \<and> mset (registry_entries scenario_lattice)
     = {#(0, \<lparr>hop_relative_index = (1, 0, 0), hop_to = 0, hop_id = 0,
               hop_is_conjugate = False\<rparr>),
         (0, \<lparr>hop_relative_index = (- 1, 0, 0), hop_to = 0, hop_id = 0,
               hop_is_conjugate = True\<rparr>)#}"
proof -
  have l: "build example_env scenario_calls (Lattice_ctor (1, 0, 0) (0, 1, 0) (0, 0, 0))
      = scenario_lattice"
    by (simp add: scenario_lattice_def square_lattice_def)
  from optimized_structure_two_entries_per_term
    [of example_env scenario_calls "(1, 0, 0)" "(0, 1, 0)" "(0, 0, 0)"]
  obtain os where os: "optimized_structure scenario_lattice = Some os"
    "length os = nsub scenario_lattice"
    "mset (compiled_entries os) = mset (registry_entries scenario_lattice)"
    unfolding l by blast
  have v: "os = [\<lparr>site_position = (0, 0, 0), site_alias = 0,
            site_hoppings =
              [\<lparr>hop_relative_index = (1, 0, 0), hop_to = 0, hop_id = 0,
                 hop_is_conjugate = False\<rparr>,
               \<lparr>hop_relative_index = (- 1, 0, 0), hop_to = 0, hop_id = 0,
                 hop_is_conjugate = True\<rparr>]\<rparr>]"
    using os(1) scenario_structure by simp
  have "mset (compiled_entries os)
     = {#(0, \<lparr>hop_relative_index = (1, 0, 0), hop_to = 0, hop_id = 0,
               hop_is_conjugate = False\<rparr>),
         (0, \<lparr>hop_relative_index = (- 1, 0, 0), hop_to = 0, hop_id = 0,
               hop_is_conjugate = True\<rparr>)#}"
    unfolding v by (simp add: compiled_entries_def)
  then show ?thesis
    using os v by simp
qed

section \<open>Identifiers of the sublattices\<close>

lemma sublattice_appended:
  "map_of (sublattices l) name = None \<Longrightarrow>
   sublattice (l\<lparr>sublattices := sublattices l @ [(name, s)]\<rparr>) name = Returned s"
  by (simp add: sublattice_def map_add_def)

lemma add_sublattice_returned:
  assumes "add_sublattice E name position energy l = (Returned (), l')"
  shows "\<exists>s. sublattices l' = sublattices l @ [(name, s)]
     \<and> sublattice l' name = Returned s \<and> sub_unique_id s = nsub l"
  using add_sublattice_cases [of E name position energy l] assms
  by (auto simp: sublattice_appended nsub_def)

lemma add_alias_returned:
  assumes "add_alias E alias_name original_name position l = (Returned (), l')"
  shows "\<exists>s. sublattices l' = sublattices l @ [(alias_name, s)]
     \<and> sublattice l' alias_name = Returned s \<and> sub_unique_id s = nsub l"
  using add_alias_cases [of E alias_name original_name position l] assms
  by (auto simp: sublattice_appended nsub_def)

text \<open>
  Claim C5.  When \<^verbatim>\<open>add_sublattice\<close> (any overload) or \<^verbatim>\<open>add_alias\<close> returns, the new
  sublattice is appended under its name and its unique identifier is the number of
  sublattices registered before the call.  So in a lattice built by the constructor and
  any sequence of calls, whichever of them throw, the identifiers are \<open>0, 1, 2, \<dots>\<close> in
  registration order.
\<close>

theorem sublattice_ids_dense:
  "(add_sublattice E name position energy l = (Returned (), l') \<longrightarrow>
      (\<exists>s. sublattices l' = sublattices l @ [(name, s)]
         \<and> sublattice l' name = Returned s \<and> sub_unique_id s = nsub l))
   \<and> (add_sublattice_scalar E name position scalar l = (Returned (), l') \<longrightarrow>
      (\<exists>s. sublattices l' = sublattices l @ [(name, s)]
         \<and> sublattice l' name = Returned s \<and> sub_unique_id s = nsub l))
   \<and> (add_sublattice_vector E name position vector l = (Returned (), l') \<longrightarrow>
      (\<exists>s. sublattices l' = sublattices l @ [(name, s)]
         \<and> sublattice l' name = Returned s \<and> sub_unique_id s = nsub l))
   \<and> (add_alias E name original_name position l = (Returned (), l') \<longrightarrow>
      (\<exists>s. sublattices l' = sublattices l @ [(name, s)]
         \<and> sublattice l' name = Returned s \<and> sub_unique_id s = nsub l))
   \<and> map (\<lambda>p. sub_unique_id (snd p)) (sublattices (build E cs (Lattice_ctor a1 a2 a3)))
     = [0..<nsub (build E cs (Lattice_ctor a1 a2 a3))]"
proof (intro conjI impI)
  assume "add_sublattice E name position energy l = (Returned (), l')"
  then show "\<exists>s. sublattices l' = sublattices l @ [(name, s)]
         \<and> sublattice l' name = Returned s \<and> sub_unique_id s = nsub l"
    by (rule add_sublattice_returned)
next
  assume "add_sublattice_scalar E name position scalar l = (Returned (), l')"
  then show "\<exists>s. sublattices l' = sublattices l @ [(name, s)]
         \<and> sublattice l' name = Returned s \<and> sub_unique_id s = nsub l"
    unfolding add_sublattice_scalar_def by (rule add_sublattice_returned)
next
  assume "add_sublattice_vector E name position vector l = (Returned (), l')"
  then show "\<exists>s. sublattices l' = sublattices l @ [(name, s)]
         \<and> sublattice l' name = Returned s \<and> sub_unique_id s = nsub l"
    unfolding add_sublattice_vector_def by (rule add_sublattice_returned)
next
  assume "add_alias E name original_name position l = (Returned (), l')"
  then show "\<exists>s. sublattices l' = sublattices l @ [(name, s)]
         \<and> sublattice l' name = Returned s \<and> sub_unique_id s = nsub l"
    by (rule add_alias_returned)
next
  have "well_formed (build E cs (Lattice_ctor a1 a2 a3))"
    by (intro well_formed_build well_formed_ctor)
  then show "map (\<lambda>p. sub_unique_id (snd p)) (sublattices (build E cs (Lattice_ctor a1 a2 a3)))
     = [0..<nsub (build E cs (Lattice_ctor a1 a2 a3))]"
    by (simp add: well_formed_def nsub_def)
qed

lemma three_site_value:
  "build example_env three_site_calls square_lattice =
     \<lparr>vectors = [(1, 0, 0), (0, 1, 0)],
      sublattices =
        [(''A'', \<lparr>sub_position = (0, 0, 0), sub_energy = [[0]],
                  sub_unique_id = 0, sub_alias_id = 0\<rparr>),
         (''B'', \<lparr>sub_position = (1 / 2, 0, 0), sub_energy = [[1, \<i>], [- \<i>, 2]],
                  sub_unique_id = 1, sub_alias_id = 1\<rparr>),
         (''A2'', \<lparr>sub_position = (0, 1 / 2, 0), sub_energy = [[0]],
                   sub_unique_id = 2, sub_alias_id = 0\<rparr>)],
      hoppings = [], offset = (0, 0, 0), min_neighbors = 1\<rparr>"
  by (simp add: three_site_calls_def eval_ops eval_defs upt_rec)

theorem sublattice_ids_dense_witness:
  "add_sublattice example_env ''B'' (1 / 2, 0, 0) [[3]] scenario_lattice
     = (Returned (),
        scenario_lattice\<lparr>sublattices := sublattices scenario_lattice @
          [(''B'', \<lparr>sub_position = (1 / 2, 0, 0), sub_energy = [[3]],
                    sub_unique_id = 1, sub_alias_id = 1\<rparr>)]\<rparr>)
   \<and> nsub scenario_lattice = 1
   \<and> add_alias example_env ''A2'' ''A'' (0, 1 / 2, 0) scenario_lattice
     = (Returned (),
        scenario_lattice\<lparr>sublattices := sublattices scenario_lattice @
          [(''A2'', \<lparr>sub_position = (0, 1 / 2, 0), sub_energy = [[0]],
                    sub_unique_id = 1, sub_alias_id = 0\<rparr>)]\<rparr>)
   \<and> map (\<lambda>p. sub_unique_id (snd p))
        (sublattices (build example_env three_site_calls square_lattice)) = [0, 1, 2]"
proof -
  have a: "add_sublattice example_env ''B'' (1 / 2, 0, 0) [[3]] scenario_lattice
     = (Returned (),
        scenario_lattice\<lparr>sublattices := sublattices scenario_lattice @
          [(''B'', \<lparr>sub_position = (1 / 2, 0, 0), sub_energy = [[3]],
                    sub_unique_id = 1, sub_alias_id = 1\<rparr>)]\<rparr>)"
    by (simp add: scenario_lattice_value eval_ops eval_defs upt_rec)
  have b: "add_alias example_env ''A2'' ''A'' (0, 1 / 2, 0) scenario_lattice
     = (Returned (),
        scenario_lattice\<lparr>sublattices := sublattices scenario_lattice @
          [(''A2'', \<lparr>sub_position = (0, 1 / 2, 0), sub_energy = [[0]],
                    sub_unique_id = 1, sub_alias_id = 0\<rparr>)]\<rparr>)"
    by (simp add: scenario_lattice_value eval_ops eval_defs upt_rec)
  have n: "nsub (build example_env three_site_calls square_lattice) = 3"
    by (simp add: three_site_value nsub_def)
  have u: "[0..<3] = [0, 1, 2]"
    by (simp add: upt_rec)
  note t = sublattice_ids_dense [of example_env _ _ _ scenario_lattice _ _ _ _ three_site_calls
      "(1, 0, 0)" "(0, 1, 0)" "(0, 0, 0)"]
  have "map (\<lambda>p. sub_unique_id (snd p))
        (sublattices (build example_env three_site_calls square_lattice)) = [0, 1, 2]"
    using t n u by (simp add: square_lattice_def)
  moreover have "nsub scenario_lattice = 1"
    by (simp add: scenario_lattice_value nsub_def)
  ultimately show ?thesis using a b by simp
qed

section \<open>What translate_coordinates solves\<close>

lemma lattice_matrix_columns:
  "map (\<lambda>i. head n (vs ! i)) [0..<length vs] = map (head n) vs"
  by (rule nth_equalityI) simp_all

lemma translate_coordinates_solution:
  "translate_coordinates E l p
     = assign_head (ndim l)
         (qr_solve E (map (head (ndim l)) (vectors l)) (head (ndim l) p)) (0, 0, 0)"
  by (simp add: translate_coordinates_def Let_def ndim_def lattice_matrix_columns)

lemma assign_head_nth:
  assumes "i < n" and "i < 3"
  shows "coefficients (assign_head n x v) ! i = x ! i"
proof -
  obtain a b c where v: "v = (a, b, c)" by (cases v)
  from assms(2) consider "i = 0" | "i = 1" | "i = 2" by linarith
  then show ?thesis
    using assms(1) by cases (simp_all add: v)
qed

lemma take_assign_head:
  assumes "length x = n" and "n \<le> 3"
  shows "take n (coefficients (assign_head n x v)) = x"
proof (rule nth_equalityI)
  show "length (take n (coefficients (assign_head n x v))) = length x"
    using assms by (simp add: length_coefficients)
next
  fix i
  assume "i < length (take n (coefficients (assign_head n x v)))"
  then have "i < n" and "i < 3"
    by (simp_all add: length_coefficients)
  then show "take n (coefficients (assign_head n x v)) ! i = x ! i"
    by (simp add: assign_head_nth)
qed

lemma vectors_add_hopping: "vectors (snd (add_hopping E d from_sub to_sub name l)) = vectors l"
  using add_hopping_cases [of E d from_sub to_sub name l]
  by (elim disjE exE conjE) simp_all

lemma vectors_exec: "vectors (snd (exec E c l)) = vectors l"
proof (cases c)
  case (AddSublattice name position energy)
  show ?thesis
    using add_sublattice_cases [of E name position energy l]
    by (elim disjE exE conjE) (simp_all add: AddSublattice)
next
  case (AddAlias alias_name original_name position)
  show ?thesis
    using add_alias_cases [of E alias_name original_name position l]
    by (elim disjE exE conjE) (simp_all add: AddAlias)
next
  case (RegisterHoppingEnergy name energy)
  show ?thesis
    using register_hopping_energy_cases [of E name energy l]
    by (elim disjE exE conjE) (simp_all add: RegisterHoppingEnergy)
next
  case (AddHopping d from_sub to_sub name)
  then show ?thesis by (simp add: vectors_add_hopping)
next
  case (AddHoppingEnergy d from_sub to_sub energy)
  obtain res l' where h: "hopping_name_for E energy l = (res, l')"
    by (cases "hopping_name_for E energy l")
  have "vectors l' = vectors l"
    using hopping_name_for_cases [of E energy l] h by (elim disjE exE conjE) auto
  then have "vectors (snd (add_hopping_energy E d from_sub to_sub energy l)) = vectors l"
    using h by (cases res) (simp_all add: add_hopping_energy_def vectors_add_hopping)
  then show ?thesis by (simp add: AddHoppingEnergy)
next
  case (SetOffset position)
  show ?thesis
    using set_offset_cases [of E position l]
    by (elim disjE) (simp_all add: SetOffset)
next
  case (WithMinNeighbors number)
  then show ?thesis by simp
qed

lemma vectors_build: "vectors (build E cs l) = vectors l"
  by (induction cs arbitrary: l) (simp_all add: vectors_exec)

text \<open>
  Claim C10.  The first \<open>ndim\<close> components of the result of \<^verbatim>\<open>translate_coordinates\<close> are
  what the solver returns for the matrix whose columns are the primitive vectors cut to
  their first \<open>ndim\<close> components and the right-hand side that is the position cut to its
  first \<open>ndim\<close> components; where the solver returns the solution of that system, they
  solve it.  A built lattice has the vectors of its constructor, one to three of them.
  The result is zero in every component from \<open>ndim\<close> on and is the same for two positions
  that agree on the first \<open>ndim\<close> components, so \<^verbatim>\<open>set_offset\<close> decides alike on them, and
  on a 2D lattice its decision does not depend on the third component.
\<close>

theorem translate_coordinates_spanned:
  "(head (ndim l) p = head (ndim l) q \<longrightarrow>
      translate_coordinates E l p = translate_coordinates E l q
      \<and> fst (set_offset E p l) = fst (set_offset E q l))
   \<and> drop (ndim l) (coefficients (translate_coordinates E l p)) = replicate (3 - ndim l) 0
   \<and> (ndim l = 2 \<longrightarrow> fst (set_offset E (x, y, z) l) = fst (set_offset E (x, y, z') l))
   \<and> (\<forall>i<min (ndim l) 3.
        coefficients (translate_coordinates E l p) ! i
          = qr_solve E (map (head (ndim l)) (vectors l)) (head (ndim l) p) ! i)
   \<and> (ndim l \<le> 3
        \<and> length (qr_solve E (map (head (ndim l)) (vectors l)) (head (ndim l) p)) = ndim l
        \<and> mat_vec (map (head (ndim l)) (vectors l))
            (qr_solve E (map (head (ndim l)) (vectors l)) (head (ndim l) p))
          = head (ndim l) p
      \<longrightarrow> mat_vec (map (head (ndim l)) (vectors l))
            (take (ndim l) (coefficients (translate_coordinates E l p)))
          = head (ndim l) p)
   \<and> vectors (build E' cs (Lattice_ctor a1 a2 a3)) = vectors (Lattice_ctor a1 a2 a3)
   \<and> 1 \<le> ndim (build E' cs (Lattice_ctor a1 a2 a3))
   \<and> ndim (build E' cs (Lattice_ctor a1 a2 a3)) \<le> 3"
proof (intro conjI impI allI)
  assume h: "head (ndim l) p = head (ndim l) q"
  then show "translate_coordinates E l p = translate_coordinates E l q"
    by (rule translate_coordinates_head)
  then show "fst (set_offset E p l) = fst (set_offset E q l)"
    by (simp add: set_offset_def)
next
  show "drop (ndim l) (coefficients (translate_coordinates E l p)) = replicate (3 - ndim l) 0"
    by (rule translate_coordinates_beyond)
next
  assume "ndim l = 2"
  then have "head (ndim l) (x, y, z) = head (ndim l) (x, y, z')"
    by (simp add: head_def)
  then have "translate_coordinates E l (x, y, z) = translate_coordinates E l (x, y, z')"
    by (rule translate_coordinates_head)
  then show "fst (set_offset E (x, y, z) l) = fst (set_offset E (x, y, z') l)"
    by (simp add: set_offset_def)
next
  fix i
  assume "i < min (ndim l) 3"
  then have "i < ndim l" and "i < 3" by simp_all
  then show "coefficients (translate_coordinates E l p) ! i
      = qr_solve E (map (head (ndim l)) (vectors l)) (head (ndim l) p) ! i"
    unfolding translate_coordinates_solution by (rule assign_head_nth)
next
  assume a: "ndim l \<le> 3
        \<and> length (qr_solve E (map (head (ndim l)) (vectors l)) (head (ndim l) p)) = ndim l
        \<and> mat_vec (map (head (ndim l)) (vectors l))
            (qr_solve E (map (head (ndim l)) (vectors l)) (head (ndim l) p))
          = head (ndim l) p"
  then have "take (ndim l) (coefficients (translate_coordinates E l p))
      = qr_solve E (map (head (ndim l)) (vectors l)) (head (ndim l) p)"
    unfolding translate_coordinates_solution by (intro take_assign_head) simp_all
  then show "mat_vec (map (head (ndim l)) (vectors l))
            (take (ndim l) (coefficients (translate_coordinates E l p)))
          = head (ndim l) p"
    using a by simp
next
  show "vectors (build E' cs (Lattice_ctor a1 a2 a3)) = vectors (Lattice_ctor a1 a2 a3)"
    by (rule vectors_build)
  then show "1 \<le> ndim (build E' cs (Lattice_ctor a1 a2 a3))"
    and "ndim (build E' cs (Lattice_ctor a1 a2 a3)) \<le> 3"
    by (simp_all add: ndim_def Lattice_ctor_def)
qed

theorem translate_coordinates_spanned_witness:
  "ndim square_lattice = 2
   \<and> head (ndim square_lattice) (1 / 2, 1 / 4, 0) = head (ndim square_lattice) (1 / 2, 1 / 4, 100)
   \<and> translate_coordinates example_env square_lattice (1 / 2, 1 / 4, 100) = (1 / 2, 1 / 4, 0)
   \<and> fst (set_offset example_env (1 / 2, 1 / 4, 100) square_lattice) = Returned ()
   \<and> fst (set_offset example_env (3, 0, 0) square_lattice)
       = fst (set_offset example_env (3, 0, 8) square_lattice)
   \<and> ndim stretched_chain = 1
   \<and> head 1 (1, 0, 5) = [1]
   \<and> map (head 1) (vectors stretched_chain) = [[2]]
   \<and> qr_solve example_env [[2]] [1] = [1 / 2]
   \<and> mat_vec [[2]] [1 / 2] = [1]
   \<and> mat_vec [[2]]
        (take 1 (coefficients (translate_coordinates example_env stretched_chain (1, 0, 5))))
       = [1]
   \<and> coefficients (translate_coordinates example_env stretched_chain (1, 0, 5)) ! 0 = 1 / 2"
proof -
  have n: "ndim square_lattice = 2"
    by (simp add: eval_offset)
  have h: "head (ndim square_lattice) (1 / 2, 1 / 4, 0)
      = head (ndim square_lattice) (1 / 2, 1 / 4, 100)"
    by (simp add: n head_def)
  have t: "translate_coordinates example_env square_lattice (1 / 2, 1 / 4, 0) = (1 / 2, 1 / 4, 0)"
    by (simp add: eval_offset upt_rec)
  have s: "fst (set_offset example_env (1 / 2, 1 / 4, 0) square_lattice) = Returned ()"
    by (simp add: eval_offset upt_rec)
  have old: "ndim square_lattice = 2
     \<and> head (ndim square_lattice) (1 / 2, 1 / 4, 0)
         = head (ndim square_lattice) (1 / 2, 1 / 4, 100)
     \<and> translate_coordinates example_env square_lattice (1 / 2, 1 / 4, 100) = (1 / 2, 1 / 4, 0)
     \<and> fst (set_offset example_env (1 / 2, 1 / 4, 100) square_lattice) = Returned ()
     \<and> fst (set_offset example_env (3, 0, 0) square_lattice)
         = fst (set_offset example_env (3, 0, 8) square_lattice)"
    using n h t s
      translate_coordinates_spanned
        [of square_lattice "(1 / 2, 1 / 4, 0)" "(1 / 2, 1 / 4, 100)" example_env 3 0 0 8]
    by simp
  have m: "ndim stretched_chain = 1"
    by (simp add: stretched_chain_def eval_offset)
  have b: "head 1 (1, 0, 5) = [1]"
    by (simp add: head_def)
  have c: "map (head 1) (vectors stretched_chain) = [[2]]"
    by (simp add: stretched_chain_def eval_offset)
  have q: "qr_solve example_env [[2]] [1] = [1 / 2]"
    by (simp add: example_env_def diag_solve_def)
  have v: "mat_vec [[2]] [1 / 2] = [1]"
    by (simp add: mat_vec_def)
  note inst = translate_coordinates_spanned [of stretched_chain "(1, 0, 5)" "(1, 0, 5)" example_env]
  have solved: "mat_vec [[2]]
        (take 1 (coefficients (translate_coordinates example_env stretched_chain (1, 0, 5))))
       = [1]"
    using inst m b c q v by simp
  have first: "coefficients (translate_coordinates example_env stretched_chain (1, 0, 5)) ! 0
      = 1 / 2"
    using inst m b c q by simp
  show ?thesis
    using old m b c q v solved first by blast
qed

section \<open>Duplicate hoppings\<close>

lemma add_hopping_resolved:
  assumes "\<not> (from_sub = to_sub \<and> d = Index3D_Zero)"
    and "map_of (sublattices l) from_sub = Some from"
    and "map_of (sublattices l) to_sub = Some to"
  shows "add_hopping E d from_sub to_sub name l =
     (case map_of (hoppings l) name of
        None \<Rightarrow> (Thrown (NoHoppingNamed name), l)
      | Some family \<Rightarrow>
          if rows (sub_energy from) \<noteq> rows (fam_energy family)
             \<or> cols (sub_energy to) \<noteq> cols (fam_energy family)
          then (Thrown HoppingSizeMismatch, l)
          else if list_ex (\<lambda>r. list_ex
                    (collides E d (sub_unique_id from) (sub_unique_id to))
                    (fam_terms (snd r))) (hoppings l)
          then (Thrown HoppingDuplicate, l)
          else (Returned (),
                l\<lparr>hoppings := AList.map_entry name
                     (\<lambda>f. f\<lparr>fam_terms := fam_terms f @
                        [\<lparr>term_relative_index = d, term_from = sub_unique_id from,
                          term_to = sub_unique_id to\<rparr>]\<rparr>)
                     (hoppings l)\<rparr>))"
  using assms
  by (simp add: add_hopping_def sublattice_def hopping_family_def Let_def
      split: option.splits)

lemma neg_index_zero: "neg_index d = Index3D_Zero \<longleftrightarrow> d = Index3D_Zero"
  by (cases d) (auto simp: Index3D_Zero_def)

lemma direct_scan:
  assumes "r \<in> set (hoppings l)" and "t \<in> set (fam_terms (snd r))"
  shows "list_ex (\<lambda>r. list_ex (collides E (term_relative_index t) (term_from t) (term_to t))
            (fam_terms (snd r))) (hoppings l)"
  using assms by (auto simp: list_ex_iff collides_def)

lemma conjugate_scan:
  assumes "r \<in> set (hoppings l)" and "t \<in> set (fam_terms (snd r))"
    and "dangling_equal E (neg_index (term_relative_index t)) (term_relative_index t)"
  shows "list_ex (\<lambda>r. list_ex
            (collides E (neg_index (term_relative_index t)) (term_to t) (term_from t))
            (fam_terms (snd r))) (hoppings l)"
  using assms by (auto simp: list_ex_iff collides_def)

lemma empty_scan:
  assumes "\<forall>a b. \<not> dangling_equal E a b"
    and "\<forall>r \<in> set (hoppings l). \<forall>u \<in> set (fam_terms (snd r)).
           (term_relative_index u, term_from u, term_to u) \<noteq> (d, from_id, to_id)"
  shows "\<not> list_ex (\<lambda>r. list_ex (collides E d from_id to_id) (fam_terms (snd r))) (hoppings l)"
proof -
  have "\<not> collides E d from_id to_id u"
    if "r \<in> set (hoppings l)" and "u \<in> set (fam_terms (snd r))" for r u
  proof -
    have "(term_relative_index u, term_from u, term_to u) \<noteq> (d, from_id, to_id)"
      using assms(2) that by blast
    moreover have "\<not> dangling_equal E d (term_relative_index u)"
      using assms(1) by blast
    ultimately show ?thesis
      by (auto simp: collides_def)
  qed
  then show ?thesis
    by (simp add: list_ex_iff)
qed

lemma add_hopping_direct_thrown:
  assumes "r \<in> set (hoppings l)" and "t \<in> set (fam_terms (snd r))"
    and "map_of (sublattices l) A = Some sa" and "map_of (sublattices l) B = Some sb"
    and "sub_unique_id sa = term_from t" and "sub_unique_id sb = term_to t"
  shows "is_thrown (fst (add_hopping E (term_relative_index t) A B name l))"
  using assms direct_scan [OF assms(1,2), of E]
  by (auto simp: add_hopping_def sublattice_def hopping_family_def Let_def
      split: option.splits)

lemma add_hopping_energy_direct_thrown:
  assumes "r \<in> set (hoppings l)" and "t \<in> set (fam_terms (snd r))"
    and "map_of (sublattices l) A = Some sa" and "map_of (sublattices l) B = Some sb"
    and "sub_unique_id sa = term_from t" and "sub_unique_id sb = term_to t"
  shows "is_thrown (fst (add_hopping_energy E (term_relative_index t) A B energy l))"
proof -
  obtain res l' where h: "hopping_name_for E energy l = (res, l')"
    by (cases "hopping_name_for E energy l")
  have "l' = l \<or> l' = l\<lparr>hoppings := hoppings l @
               [(''__anonymous__'' @ to_string (length (hoppings l)),
                 \<lparr>fam_energy = energy, fam_unique_id = length (hoppings l),
                  fam_terms = []\<rparr>)]\<rparr>"
    using hopping_name_for_cases [of E energy l] h by auto
  then have r: "r \<in> set (hoppings l')" and s: "sublattices l' = sublattices l"
    using assms(1) by auto
  have "is_thrown (fst (add_hopping E (term_relative_index t) A B name l'))" for name
    using add_hopping_direct_thrown [OF r assms(2), of A sa B sb E name] assms(3-6) s
    by simp
  then show ?thesis
    using h by (cases res) (simp_all add: add_hopping_energy_def)
qed

text \<open>
  Claim C3, on the code.  Let a built lattice hold a term \<open>(d, A, B)\<close> in some family.
  Registering \<open>(d, A, B)\<close> again throws, with a family name or with an energy: for a name,
  the unknown-family error, the size-mismatch error or, when the family is registered and
  its matrix has the rows of the source and the columns of the destination, the duplicate
  error.  Registering the conjugate \<open>(-d, B, A)\<close> into a registered family of fitting shape
  throws the duplicate error where the comparison with the dead temporary compares equal;
  where it never does, and no stored term is \<open>(-d, B, A)\<close> itself, the call returns and
  stores the conjugate.
\<close>

theorem duplicate_hopping_scan:
  assumes "l = build E' cs (Lattice_ctor a1 a2 a3)"
    and "r \<in> set (hoppings l)" and "t \<in> set (fam_terms (snd r))"
    and "sublattice l A = Returned sa" and "sublattice l B = Returned sb"
    and "sub_unique_id sa = term_from t" and "sub_unique_id sb = term_to t"
  shows "is_thrown (fst (add_hopping E (term_relative_index t) A B name l))
    \<and> is_thrown (fst (add_hopping_energy E (term_relative_index t) A B energy l))
    \<and> (\<forall>family. hopping_family l name = Returned family
          \<and> rows (sub_energy sa) = rows (fam_energy family)
          \<and> cols (sub_energy sb) = cols (fam_energy family) \<longrightarrow>
          add_hopping E (term_relative_index t) A B name l = (Thrown HoppingDuplicate, l))
    \<and> (\<forall>family. hopping_family l name = Returned family
          \<and> (rows (sub_energy sa) \<noteq> rows (fam_energy family)
             \<or> cols (sub_energy sb) \<noteq> cols (fam_energy family)) \<longrightarrow>
          add_hopping E (term_relative_index t) A B name l = (Thrown HoppingSizeMismatch, l))
    \<and> (hopping_family l name = Thrown (NoHoppingNamed name) \<longrightarrow>
          add_hopping E (term_relative_index t) A B name l = (Thrown (NoHoppingNamed name), l))
    \<and> (\<forall>family. hopping_family l name = Returned family
          \<and> rows (sub_energy sb) = rows (fam_energy family)
          \<and> cols (sub_energy sa) = cols (fam_energy family)
          \<and> dangling_equal E (neg_index (term_relative_index t)) (term_relative_index t) \<longrightarrow>
          add_hopping E (neg_index (term_relative_index t)) B A name l
            = (Thrown HoppingDuplicate, l))
    \<and> (\<forall>family. hopping_family l name = Returned family
          \<and> rows (sub_energy sb) = rows (fam_energy family)
          \<and> cols (sub_energy sa) = cols (fam_energy family)
          \<and> (\<forall>a b. \<not> dangling_equal E a b)
          \<and> (\<forall>r' \<in> set (hoppings l). \<forall>u \<in> set (fam_terms (snd r')).
                (term_relative_index u, term_from u, term_to u)
                  \<noteq> (neg_index (term_relative_index t), term_to t, term_from t)) \<longrightarrow>
          add_hopping E (neg_index (term_relative_index t)) B A name l
            = (Returned (),
               l\<lparr>hoppings := AList.map_entry name
                    (\<lambda>f. f\<lparr>fam_terms := fam_terms f @
                       [\<lparr>term_relative_index = neg_index (term_relative_index t),
                         term_from = term_to t, term_to = term_from t\<rparr>]\<rparr>)
                    (hoppings l)\<rparr>))"
proof -
  have wf: "well_formed l"
    unfolding assms(1) by (intro well_formed_build well_formed_ctor)
  have A: "map_of (sublattices l) A = Some sa" and B: "map_of (sublattices l) B = Some sb"
    using assms(4,5) by (auto simp: sublattice_def split: option.splits)
  have nz: "\<not> (term_from t = term_to t \<and> term_relative_index t = Index3D_Zero)"
    using wf assms(2,3) by (auto simp: well_formed_def list_all_iff)
  have z1: "\<not> (A = B \<and> term_relative_index t = Index3D_Zero)"
    using nz A B assms(6,7) by auto
  have z2: "\<not> (B = A \<and> neg_index (term_relative_index t) = Index3D_Zero)"
    using z1 by (auto simp: neg_index_zero)
  note direct = add_hopping_resolved [OF z1 A B, of E name, unfolded assms(6,7)]
  note conj = add_hopping_resolved [OF z2 B A, of E name, unfolded assms(6,7)]
  note scan = direct_scan [OF assms(2,3), of E]
  have 1: "is_thrown (fst (add_hopping E (term_relative_index t) A B name l))"
    by (rule add_hopping_direct_thrown [OF assms(2,3) A B assms(6,7)])
  have 2: "is_thrown (fst (add_hopping_energy E (term_relative_index t) A B energy l))"
    by (rule add_hopping_energy_direct_thrown [OF assms(2,3) A B assms(6,7)])
  have 3: "add_hopping E (term_relative_index t) A B name l = (Thrown HoppingDuplicate, l)"
    if "hopping_family l name = Returned family
          \<and> rows (sub_energy sa) = rows (fam_energy family)
          \<and> cols (sub_energy sb) = cols (fam_energy family)" for family
  proof -
    from that have "map_of (hoppings l) name = Some family"
      by (auto simp: hopping_family_def split: option.splits)
    then show ?thesis using that scan by (simp add: direct)
  qed
  have 4: "add_hopping E (term_relative_index t) A B name l = (Thrown HoppingSizeMismatch, l)"
    if "hopping_family l name = Returned family
          \<and> (rows (sub_energy sa) \<noteq> rows (fam_energy family)
             \<or> cols (sub_energy sb) \<noteq> cols (fam_energy family))" for family
  proof -
    from that have "map_of (hoppings l) name = Some family"
      by (auto simp: hopping_family_def split: option.splits)
    then show ?thesis using that by (auto simp: direct)
  qed
  have 5: "add_hopping E (term_relative_index t) A B name l
      = (Thrown (NoHoppingNamed name), l)"
    if "hopping_family l name = Thrown (NoHoppingNamed name)"
  proof -
    from that have "map_of (hoppings l) name = None"
      by (auto simp: hopping_family_def split: option.splits)
    then show ?thesis by (simp add: direct)
  qed
  have 6: "add_hopping E (neg_index (term_relative_index t)) B A name l
      = (Thrown HoppingDuplicate, l)"
    if "hopping_family l name = Returned family
          \<and> rows (sub_energy sb) = rows (fam_energy family)
          \<and> cols (sub_energy sa) = cols (fam_energy family)
          \<and> dangling_equal E (neg_index (term_relative_index t)) (term_relative_index t)"
    for family
  proof -
    from that have "map_of (hoppings l) name = Some family"
      by (auto simp: hopping_family_def split: option.splits)
    moreover have "list_ex (\<lambda>r. list_ex
        (collides E (neg_index (term_relative_index t)) (term_to t) (term_from t))
        (fam_terms (snd r))) (hoppings l)"
      using that by (intro conjugate_scan [OF assms(2,3)]) simp
    ultimately show ?thesis using that by (simp add: conj)
  qed
  have 7: "add_hopping E (neg_index (term_relative_index t)) B A name l
            = (Returned (),
               l\<lparr>hoppings := AList.map_entry name
                    (\<lambda>f. f\<lparr>fam_terms := fam_terms f @
                       [\<lparr>term_relative_index = neg_index (term_relative_index t),
                         term_from = term_to t, term_to = term_from t\<rparr>]\<rparr>)
                    (hoppings l)\<rparr>)"
    if "hopping_family l name = Returned family
          \<and> rows (sub_energy sb) = rows (fam_energy family)
          \<and> cols (sub_energy sa) = cols (fam_energy family)
          \<and> (\<forall>a b. \<not> dangling_equal E a b)
          \<and> (\<forall>r' \<in> set (hoppings l). \<forall>u \<in> set (fam_terms (snd r')).
                (term_relative_index u, term_from u, term_to u)
                  \<noteq> (neg_index (term_relative_index t), term_to t, term_from t))"
    for family
  proof -
    from that have "map_of (hoppings l) name = Some family"
      by (auto simp: hopping_family_def split: option.splits)
    moreover have "\<not> list_ex (\<lambda>r. list_ex
        (collides E (neg_index (term_relative_index t)) (term_to t) (term_from t))
        (fam_terms (snd r))) (hoppings l)"
      using that by (intro empty_scan) blast+
    ultimately show ?thesis using that by (simp add: conj)
  qed
  show ?thesis
    using 1 2 3 4 5 6 7 by blast
qed

text \<open>
  On the scenario lattice, which holds \<open>((1,0,0), A, A)\<close> in family \<open>t\<close>: the same term is a
  duplicate, the conjugate \<open>((-1,0,0), A, A)\<close> is a duplicate where the dead temporary still
  compares equal, and is stored as a second term where it does not.
\<close>

theorem duplicate_hopping_scan_witness:
  "add_hopping optimized_env (1, 0, 0) ''A'' ''A'' ''t'' scenario_lattice
     = (Thrown HoppingDuplicate, scenario_lattice)
   \<and> is_thrown (fst (add_hopping_energy optimized_env (1, 0, 0) ''A'' ''A'' [[5]]
        scenario_lattice))
   \<and> add_hopping example_env (- 1, 0, 0) ''A'' ''A'' ''t'' scenario_lattice
     = (Thrown HoppingDuplicate, scenario_lattice)
   \<and> add_hopping optimized_env (- 1, 0, 0) ''A'' ''A'' ''t'' scenario_lattice
     = (Returned (),
        scenario_lattice\<lparr>hoppings :=
          [(''t'', \<lparr>fam_energy = [[- 1]], fam_unique_id = 0,
                    fam_terms = [\<lparr>term_relative_index = (1, 0, 0),
                                  term_from = 0, term_to = 0\<rparr>,
                                 \<lparr>term_relative_index = (- 1, 0, 0),
                                  term_from = 0, term_to = 0\<rparr>]\<rparr>)]\<rparr>)"
proof -
  let ?t = "\<lparr>term_relative_index = (1, 0, 0), term_from = 0, term_to = 0\<rparr>"
  let ?f = "\<lparr>fam_energy = [[- 1]], fam_unique_id = 0, fam_terms = [?t]\<rparr>"
  let ?s = "\<lparr>sub_position = (0, 0, 0), sub_energy = [[0]],
             sub_unique_id = 0, sub_alias_id = 0\<rparr>"
  have 1: "scenario_lattice
      = build example_env scenario_calls (Lattice_ctor (1, 0, 0) (0, 1, 0) (0, 0, 0))"
    by (simp add: scenario_lattice_def square_lattice_def)
  have 2: "(''t'', ?f) \<in> set (hoppings scenario_lattice)"
    by (simp add: scenario_lattice_value)
  have 3: "?t \<in> set (fam_terms (snd (''t'', ?f)))"
    by simp
  have 4: "sublattice scenario_lattice ''A'' = Returned ?s"
    by (simp add: scenario_lattice_value sublattice_def)
  have 5: "sub_unique_id ?s = term_from ?t" "sub_unique_id ?s = term_to ?t"
    by simp_all
  have fam: "hopping_family scenario_lattice ''t'' = Returned ?f
      \<and> rows (sub_energy ?s) = rows (fam_energy ?f)
      \<and> cols (sub_energy ?s) = cols (fam_energy ?f)"
    by (simp add: scenario_lattice_value hopping_family_def rows_def cols_def)
  have eq: "dangling_equal example_env (neg_index (term_relative_index ?t))
      (term_relative_index ?t)"
    by (simp add: example_env_def)
  have never: "\<forall>a b. \<not> dangling_equal optimized_env a b"
    by (simp add: optimized_env_def)
  have other: "\<forall>r' \<in> set (hoppings scenario_lattice). \<forall>u \<in> set (fam_terms (snd r')).
      (term_relative_index u, term_from u, term_to u)
        \<noteq> (neg_index (term_relative_index ?t), term_to ?t, term_from ?t)"
    by (simp add: scenario_lattice_value)
  note o = duplicate_hopping_scan [OF 1 2 3 4 4 5, of optimized_env "''t''" "[[5]]"]
  note e = duplicate_hopping_scan [OF 1 2 3 4 4 5, of example_env "''t''" "[[5]]"]
  have d1: "add_hopping optimized_env (term_relative_index ?t) ''A'' ''A'' ''t''
      scenario_lattice = (Thrown HoppingDuplicate, scenario_lattice)"
    using o fam by blast
  have d2: "is_thrown (fst (add_hopping_energy optimized_env (term_relative_index ?t)
      ''A'' ''A'' [[5]] scenario_lattice))"
    using o by blast
  have d3: "add_hopping example_env (neg_index (term_relative_index ?t)) ''A'' ''A'' ''t''
      scenario_lattice = (Thrown HoppingDuplicate, scenario_lattice)"
    using e fam eq by blast
  have d4: "add_hopping optimized_env (neg_index (term_relative_index ?t)) ''A'' ''A'' ''t''
      scenario_lattice
      = (Returned (),
         scenario_lattice\<lparr>hoppings := AList.map_entry ''t''
              (\<lambda>f. f\<lparr>fam_terms := fam_terms f @
                 [\<lparr>term_relative_index = neg_index (term_relative_index ?t),
                   term_from = term_to ?t, term_to = term_from ?t\<rparr>]\<rparr>)
              (hoppings scenario_lattice)\<rparr>)"
    using o fam never other by blast
  have v: "AList.map_entry ''t''
              (\<lambda>f. f\<lparr>fam_terms := fam_terms f @
                 [\<lparr>term_relative_index = neg_index (term_relative_index ?t),
                   term_from = term_to ?t, term_to = term_from ?t\<rparr>]\<rparr>)
              (hoppings scenario_lattice)
      = [(''t'', \<lparr>fam_energy = [[- 1]], fam_unique_id = 0,
                    fam_terms = [\<lparr>term_relative_index = (1, 0, 0),
                                  term_from = 0, term_to = 0\<rparr>,
                                 \<lparr>term_relative_index = (- 1, 0, 0),
                                  term_from = 0, term_to = 0\<rparr>]\<rparr>)]"
    by (simp add: scenario_lattice_value)
  show ?thesis
    using d1 d2 d3 d4 unfolding v by simp
qed

section \<open>Derived lattices leave the receiver alone\<close>

text \<open>
  Claim C8, as the code has it.  \<^verbatim>\<open>with_min_neighbors\<close> always returns a new object, the
  copy of the receiver with the new hint.  \<^verbatim>\<open>with_offset\<close> returns a new object, the copy
  of the receiver with the new offset, when \<^verbatim>\<open>set_offset\<close> accepts the position, and
  otherwise throws and returns nothing.  In every case the receiver is what it was, the
  new object is not the receiver, and whatever a member function does to an object at the
  new address, the receiver stays what it was.
\<close>

theorem derived_lattice_frame:
  assumes "this < length s"
  shows "with_min_neighbors number this s
           = (Returned (length s), s @ [(s ! this)\<lparr>min_neighbors := number\<rparr>])
    \<and> (fst (set_offset E position (s ! this)) = Returned () \<longrightarrow>
          with_offset E position this s
            = (Returned (length s), s @ [(s ! this)\<lparr>offset := position\<rparr>]))
    \<and> (fst (set_offset E position (s ! this)) \<noteq> Returned () \<longrightarrow>
          with_offset E position this s = (Thrown OffsetTooLarge, s))
    \<and> snd (with_min_neighbors number this s) ! this = s ! this
    \<and> snd (with_offset E position this s) ! this = s ! this
    \<and> this \<noteq> length s
    \<and> snd (at_object (length s) f (s @ [new_lattice])) ! this = s ! this"
proof -
  have a: "with_min_neighbors number this s
           = (Returned (length s), s @ [(s ! this)\<lparr>min_neighbors := number\<rparr>])"
    by (simp add: with_min_neighbors_def)
  have b: "with_offset E position this s
           = (if fst (set_offset E position (s ! this)) = Returned ()
              then (Returned (length s), s @ [(s ! this)\<lparr>offset := position\<rparr>])
              else (Thrown OffsetTooLarge, s))"
    using set_offset_cases [of E position "s ! this"]
    by (auto simp: with_offset_def)
  have c: "snd (at_object (length s) f (s @ [new_lattice])) ! this = s ! this"
    using assms by (simp add: at_object_def nth_append split: prod.splits)
  have d: "snd (with_offset E position this s) ! this = s ! this"
    using assms unfolding b by (simp add: nth_append)
  have e: "snd (with_min_neighbors number this s) ! this = s ! this"
    using assms unfolding a by (simp add: nth_append)
  show ?thesis
    using assms a b c d e by simp
qed

text \<open>
  On the chain lattice, \<^verbatim>\<open>with_offset\<close> of ten lattice vectors throws: no lattice is
  returned.
\<close>

theorem derived_lattice_frame_counterexample:
  "with_offset example_env (10, 0, 0) 0 [chain_lattice] = (Thrown OffsetTooLarge, [chain_lattice])"
  by (simp add: with_offset_def eval_offset upt_rec)

theorem derived_lattice_frame_witness:
  "with_min_neighbors 3 0 [scenario_lattice]
     = (Returned 1, [scenario_lattice, scenario_lattice\<lparr>min_neighbors := 3\<rparr>])
   \<and> with_offset example_env (1 / 2, 0, 0) 0 [scenario_lattice]
     = (Returned 1, [scenario_lattice, scenario_lattice\<lparr>offset := (1 / 2, 0, 0)\<rparr>])
   \<and> with_offset example_env (1, 0, 0) 0 [scenario_lattice]
     = (Thrown OffsetTooLarge, [scenario_lattice])
   \<and> snd (at_object 1 (add_sublattice example_env ''B'' (0, 0, 0) [[1]])
        [scenario_lattice, scenario_lattice\<lparr>offset := (1 / 2, 0, 0)\<rparr>]) ! 0
     = scenario_lattice"
proof -
  have h: "0 < length [scenario_lattice]" by simp
  have ok: "fst (set_offset example_env (1 / 2, 0, 0) ([scenario_lattice] ! 0)) = Returned ()"
    by (simp add: scenario_lattice_value eval_offset upt_rec)
  have no: "fst (set_offset example_env (1, 0, 0) ([scenario_lattice] ! 0)) \<noteq> Returned ()"
    by (simp add: scenario_lattice_value eval_offset upt_rec)
  note t1 = derived_lattice_frame [OF h, of 3 example_env "(1 / 2, 0, 0)"
        "add_sublattice example_env ''B'' (0, 0, 0) [[1]]"
        "scenario_lattice\<lparr>offset := (1 / 2, 0, 0)\<rparr>"]
  note t2 = derived_lattice_frame [OF h, of 3 example_env "(1, 0, 0)"
        "add_sublattice example_env ''B'' (0, 0, 0) [[1]]"
        "scenario_lattice\<lparr>offset := (1 / 2, 0, 0)\<rparr>"]
  have r1: "with_min_neighbors 3 0 [scenario_lattice]
     = (Returned 1, [scenario_lattice, scenario_lattice\<lparr>min_neighbors := 3\<rparr>])"
    using t1 by simp
  have r2: "with_offset example_env (1 / 2, 0, 0) 0 [scenario_lattice]
     = (Returned 1, [scenario_lattice, scenario_lattice\<lparr>offset := (1 / 2, 0, 0)\<rparr>])"
    using t1 ok by simp
  have r3: "with_offset example_env (1, 0, 0) 0 [scenario_lattice]
     = (Thrown OffsetTooLarge, [scenario_lattice])"
    using t2 no by simp
  have r4: "snd (at_object 1 (add_sublattice example_env ''B'' (0, 0, 0) [[1]])
        [scenario_lattice, scenario_lattice\<lparr>offset := (1 / 2, 0, 0)\<rparr>]) ! 0
     = scenario_lattice"
    using t1 by simp
  show ?thesis
    using r1 r2 r3 r4 by simp
qed

end
